theory Spec2Isabelle
  imports Main "HOL-Library.Word" "HOL-Library.Signed_Division" "HOL-Library.Monad_Syntax"
begin

unbundle bit_operations_syntax

section \<open>Machine types\<close>

text \<open>
  Go's \<open>byte\<close>, \<open>uint64\<close> and \<open>uint256.Int\<close> are words of 8, 64 and 256 bits;
  \<open>common.Address\<close> is 20 bytes and \<open>common.Hash\<close> 32 bytes, read here as the
  big-endian numbers they spell. \<open>*big.Int\<close> is an unbounded integer. A byte slice is a
  list of bytes; a slice's capacity is taken to be its length (the language lets
  \<open>append\<close> allocate exactly what is needed), so that slicing past the length panics.
  A run-time panic of the Go program is the value \<open>None\<close>.
\<close>

type_synonym byte = "8 word"
type_synonym u64 = "64 word"
type_synonym u256 = "256 word"
type_synonym address = "160 word"
type_synonym hash = "256 word"

text \<open>
  What a wrapped breakpoint error is wrapped with: \<open>bp.String()\<close>, kept as the fields
  it prints instead of the printed text.
\<close>

datatype wrapmsg =
    MsgText string
  | MsgBpPc "address option" u64
  | MsgBpOpCode "address option" byte

text \<open>
  Go \<open>error\<close> values. An error whose message formats a number carries the number.
\<close>

datatype error =
    ErrInvalidJump
  | ErrReturnDataOutOfBounds
  | ErrBreakpoint
  | ErrorNew string
  | ErrorWrap error wrapmsg
  | ErrBlockHashOverflow u256
  | ErrInvalidPc u64
  | ErrSuicide u256
  | ErrNoBlockHash u64
  | ErrNoStorage address
  | ErrNoCode address
  | ErrNoBalance address

text \<open>
  A function that returns \<open>error\<close> and mutates its receiver returns
  \<open>Some (e, s)\<close>: the error (\<open>None\<close> for \<open>nil\<close>) and the state as the call left it.
\<close>

abbreviation ok :: "'s \<Rightarrow> (error option \<times> 's) option" where
  "ok s \<equiv> Some (None, s)"

abbreviation fail :: "error \<Rightarrow> 's \<Rightarrow> (error option \<times> 's) option" where
  "fail e s \<equiv> Some (Some e, s)"

section \<open>Stack\<close>

text \<open>
  \<open>Stack[T]\<close> wraps the slice \<open>Data\<close>; the top of the stack is the last element.
  \<open>n\<close> is a Go \<open>int\<close>. \<open>Poke\<close> is the write through the pointer that
  \<open>PeekI\<close> returns.
\<close>

type_synonym 'a Stack = "'a list"

definition Push :: "'a Stack \<Rightarrow> 'a \<Rightarrow> 'a Stack" where
  "Push st d = st @ [d]"

definition Pop :: "'a Stack \<Rightarrow> ('a \<times> 'a Stack) option" where
  "Pop st = (if st = [] then None else Some (last st, butlast st))"

definition Len :: "'a Stack \<Rightarrow> int" where
  "Len st = int (length st)"

definition in_range :: "'a list \<Rightarrow> int \<Rightarrow> bool" where
  "in_range xs i \<longleftrightarrow> 0 \<le> i \<and> i < int (length xs)"

definition Swap :: "'a Stack \<Rightarrow> int \<Rightarrow> 'a Stack option" where
  "Swap st n =
     (let i = Len st - n; j = Len st - 1
      in if in_range st i \<and> in_range st j
         then Some (st[nat i := st ! nat j, nat j := st ! nat i])
         else None)"

definition Dup :: "'a Stack \<Rightarrow> int \<Rightarrow> 'a Stack option" where
  "Dup st n =
     (let i = Len st - n
      in if in_range st i then Some (Push st (st ! nat i)) else None)"

definition PeekI :: "'a Stack \<Rightarrow> int \<Rightarrow> 'a option" where
  "PeekI st n =
     (let i = Len st - 1 - n
      in if in_range st i then Some (st ! nat i) else None)"

definition Peek :: "'a Stack \<Rightarrow> 'a option" where
  "Peek st = PeekI st 0"

definition Poke :: "'a Stack \<Rightarrow> 'a \<Rightarrow> 'a Stack" where
  "Poke st v = st[length st - 1 := v]"

section \<open>Memory\<close>

text \<open>
  \<open>Memory\<close> wraps the slice \<open>store\<close>. \<open>len(m.store)\<close> fits an \<open>int\<close>, so
  \<open>uint64(len(m.store))\<close> is the length itself, and \<open>make\<close> is taken to succeed.
  \<open>slice xs lo hi\<close> is \<open>xs[lo:hi]\<close>, \<open>copy_into\<close> is the builtin \<open>copy\<close>
  into \<open>xs[lo:hi]\<close>: it writes as many bytes as the shorter of source and
  destination.
\<close>

type_synonym Memory = "byte list"

definition slice :: "'a list \<Rightarrow> int \<Rightarrow> int \<Rightarrow> 'a list option" where
  "slice xs lo hi =
     (if 0 \<le> lo \<and> lo \<le> hi \<and> hi \<le> int (length xs)
      then Some (take (nat (hi - lo)) (drop (nat lo) xs))
      else None)"

definition copy_into :: "'a list \<Rightarrow> int \<Rightarrow> int \<Rightarrow> 'a list \<Rightarrow> 'a list option" where
  "copy_into xs lo hi src =
     (if 0 \<le> lo \<and> lo \<le> hi \<and> hi \<le> int (length xs)
      then (let n = min (nat (hi - lo)) (length src)
            in Some (take (nat lo) xs @ take n src @ drop (nat lo + n) xs))
      else None)"

definition Resize :: "Memory \<Rightarrow> u64 \<Rightarrow> Memory" where
  "Resize m sz =
     (if length m < unat sz then m @ replicate (unat sz - length m) 0 else m)"

definition Set :: "Memory \<Rightarrow> u64 \<Rightarrow> u64 \<Rightarrow> byte list \<Rightarrow> Memory option" where
  "Set m offset sz val =
     (if sz > 0 then
        (let m1 = (if unat (offset + sz) > length m then Resize m (offset + sz) else m)
         in copy_into m1 (uint offset) (uint (offset + sz)) val)
      else Some m)"

text \<open>\<open>Bytes32 w\<close> is what \<open>WriteToSlice\<close> puts into a slice of 32 bytes or more.\<close>

definition Bytes32 :: "u256 \<Rightarrow> byte list" where
  "Bytes32 w = map (\<lambda>i. ucast (drop_bit (8 * (31 - i)) w)) [0..<32]"

definition Set32 :: "Memory \<Rightarrow> u64 \<Rightarrow> u256 \<Rightarrow> Memory option" where
  "Set32 m offset val =
     (let m1 = (if unat (offset + 32) > length m then Resize m (offset + 32) else m)
      in do {
        m2 \<leftarrow> copy_into m1 (uint offset) (uint (offset + 32)) (replicate 32 0);
        copy_into m2 (uint offset) (int (length m2)) (Bytes32 val)
      })"

text \<open>
  \<open>GetPtr\<close> takes \<open>int64\<close> arguments: the words are read as signed, and
  \<open>offset + size\<close> wraps.
\<close>

definition GetPtr :: "Memory \<Rightarrow> u64 \<Rightarrow> u64 \<Rightarrow> byte list option" where
  "GetPtr m offset sz =
     (if sz = 0 then Some []
      else if int (length m) > sint offset
      then slice m (sint offset) (sint (offset + sz))
      else Some [])"

definition MemLen :: "Memory \<Rightarrow> u64" where
  "MemLen m = of_nat (length m)"

section \<open>The 256-bit integer library\<close>

text \<open>
  \<open>holiman/uint256\<close> is a dependency, not code of the repository. Its operations are
  the word operations of their documentation: arithmetic modulo \<open>2^256\<close>, division
  and modulo by zero yielding 0, signed operations on the two's complement reading.
  The shift amount \<open>n\<close> of \<open>Lsh\<close>, \<open>Rsh\<close> and \<open>SRsh\<close> is a Go \<open>uint\<close>.
\<close>

definition Uint64 :: "u256 \<Rightarrow> u64" where
  "Uint64 z = ucast z"

definition Uint64WithOverflow :: "u256 \<Rightarrow> u64 \<times> bool" where
  "Uint64WithOverflow z = (ucast z, drop_bit 64 z \<noteq> 0)"

definition LtUint64 :: "u256 \<Rightarrow> u64 \<Rightarrow> bool" where
  "LtUint64 z n \<longleftrightarrow> z < ucast n"

definition GtUint64 :: "u256 \<Rightarrow> u64 \<Rightarrow> bool" where
  "GtUint64 z n \<longleftrightarrow> z > ucast n"

definition SetUint64 :: "u64 \<Rightarrow> u256" where
  "SetUint64 x = ucast x"

definition Div :: "u256 \<Rightarrow> u256 \<Rightarrow> u256" where
  "Div x y = (if y = 0 then 0 else x div y)"

definition SDiv :: "u256 \<Rightarrow> u256 \<Rightarrow> u256" where
  "SDiv x y = (if y = 0 then 0 else word_of_int (sint x sdiv sint y))"

definition Mod :: "u256 \<Rightarrow> u256 \<Rightarrow> u256" where
  "Mod x y = (if y = 0 then 0 else x mod y)"

definition SMod :: "u256 \<Rightarrow> u256 \<Rightarrow> u256" where
  "SMod x y = (if y = 0 then 0 else word_of_int (sint x smod sint y))"

definition Exp :: "u256 \<Rightarrow> u256 \<Rightarrow> u256" where
  "Exp base exponent = base ^ unat exponent"

definition ExtendSign :: "u256 \<Rightarrow> u256 \<Rightarrow> u256" where
  "ExtendSign x byteNum =
     (if GtUint64 byteNum 31 then x else signed_take_bit (unat byteNum * 8 + 7) x)"

definition Byte :: "u256 \<Rightarrow> u256 \<Rightarrow> u256" where
  "Byte z n = (if n < 32 then drop_bit (8 * (31 - unat n)) z AND 255 else 0)"

definition AddMod :: "u256 \<Rightarrow> u256 \<Rightarrow> u256 \<Rightarrow> u256" where
  "AddMod x y m = (if m = 0 then 0 else of_nat ((unat x + unat y) mod unat m))"

definition MulMod :: "u256 \<Rightarrow> u256 \<Rightarrow> u256 \<Rightarrow> u256" where
  "MulMod x y m = (if m = 0 then 0 else of_nat ((unat x * unat y) mod unat m))"

definition Lsh :: "u256 \<Rightarrow> u64 \<Rightarrow> u256" where
  "Lsh x n = push_bit (unat n) x"

definition Rsh :: "u256 \<Rightarrow> u64 \<Rightarrow> u256" where
  "Rsh x n = drop_bit (unat n) x"

definition SRsh :: "u256 \<Rightarrow> u64 \<Rightarrow> u256" where
  "SRsh x n = signed_drop_bit (unat n) x"

definition Sign :: "u256 \<Rightarrow> int" where
  "Sign z = (if z = 0 then 0 else if bit z 255 then - 1 else 1)"

definition Slt :: "u256 \<Rightarrow> u256 \<Rightarrow> bool" where
  "Slt x y \<longleftrightarrow> sint x < sint y"

definition Sgt :: "u256 \<Rightarrow> u256 \<Rightarrow> bool" where
  "Sgt x y \<longleftrightarrow> sint x > sint y"

text \<open>
  \<open>SetBytes\<close> reads a big-endian byte string; of more than 32 bytes the last 32
  count. \<open>FromBig\<close> reduces a big integer modulo \<open>2^256\<close>.
\<close>

definition SetBytes :: "byte list \<Rightarrow> u256" where
  "SetBytes bs = foldl (\<lambda>acc b. push_bit 8 acc OR ucast b) 0 bs"

definition FromBig :: "int \<Rightarrow> u256" where
  "FromBig b = word_of_int b"

definition ToBig :: "u256 \<Rightarrow> int" where
  "ToBig z = uint z"

definition Bytes20 :: "u256 \<Rightarrow> address" where
  "Bytes20 z = ucast z"

definition AddressToWord :: "address \<Rightarrow> u256" where
  "AddressToWord a = ucast a"

section \<open>Operation table\<close>

text \<open>
  \<open>Exec\<close> is a function pointer: the table names the function (\<open>exec_id\<close>) and
  \<open>apply_exec\<close> below calls it. \<open>GasCost\<close> is left out: the interpreter loop never
  reads it. The opcode values are those of go-ethereum's \<open>vm\<close> package, as the
  table's comments give them.
\<close>

datatype (plugins only: code) exec_id =
    OpStop | OpAdd | OpMul | OpSub | OpDiv | OpSdiv | OpMod | OpSmod | OpAddmod | OpMulmod
  | OpExp | OpSignExtend | OpLt | OpGt | OpSlt | OpSgt | OpEq | OpIszero | OpAnd | OpOr
  | OpXor | OpNot | OpByte | OpSHL | OpSHR | OpSAR | OpSha3 | OpAddress | OpBalance
  | OpOrigin | OpCaller | OpCallValue | OpCallDataLoad | OpCallDataSize | OpCallDataCopy
  | OpCodeSize | OpCodeCopy | OpGasprice | OpExtCodeSize | OpExtCodeCopy
  | OpReturnDataSize | OpReturnDataCopy | OpExtCodeHash | OpBlockhash | OpCoinbase
  | OpTimestamp | OpNumber | OpDifficulty | OpGasLimit | OpChainID | OpSelfBalance
  | OpBaseFee | OpPop | OpMload | OpMstore | OpMstore8 | OpSload | OpSstore | OpJump
  | OpJumpi | OpPc | OpMsize | OpGas | OpJumpdest
  | MakePush u64 | MakeDup int | MakeSwap int | MakeLog int
  | OpCreate | OpCall | OpCallCode | OpReturn | OpDelegateCall | OpCreate2
  | OpStaticCall | OpRevert | OpAssert | OpSuicide

record Operation =
  OpCode :: byte
  OpSize :: u64
  Exec :: exec_id
  NStackIn :: byte
  NStackOut :: byte

definition make_op :: "byte \<Rightarrow> u64 \<Rightarrow> byte \<Rightarrow> byte \<Rightarrow> exec_id \<Rightarrow> Operation" where
  "make_op opCode opSize nStackIn nStackOut exec =
     \<lparr>OpCode = opCode, OpSize = opSize, Exec = exec,
      NStackIn = nStackIn, NStackOut = nStackOut\<rparr>"

abbreviation (input) "STOP \<equiv> (0x00 :: byte)"
abbreviation (input) "ADD \<equiv> (0x01 :: byte)"
abbreviation (input) "ADDMOD \<equiv> (0x08 :: byte)"
abbreviation (input) "MULMOD \<equiv> (0x09 :: byte)"
abbreviation (input) "SHL \<equiv> (0x1b :: byte)"
abbreviation (input) "SHR \<equiv> (0x1c :: byte)"
abbreviation (input) "SAR \<equiv> (0x1d :: byte)"
abbreviation (input) "CALLDATALOAD \<equiv> (0x35 :: byte)"
abbreviation (input) "EXTCODESIZE \<equiv> (0x3b :: byte)"
abbreviation (input) "BLOCKHASH \<equiv> (0x40 :: byte)"
abbreviation (input) "JUMP \<equiv> (0x56 :: byte)"
abbreviation (input) "JUMPI \<equiv> (0x57 :: byte)"
abbreviation (input) "CALL \<equiv> (0xf1 :: byte)"
abbreviation (input) "STATICCALL \<equiv> (0xfa :: byte)"

definition OpTableList :: "(byte \<times> Operation) list" where
  "OpTableList =
    [(0x00, make_op 0x00 0 0 0 OpStop),
     (0x01, make_op 0x01 0 2 1 OpAdd),
     (0x02, make_op 0x02 0 2 1 OpMul),
     (0x03, make_op 0x03 0 2 1 OpSub),
     (0x04, make_op 0x04 0 2 1 OpDiv),
     (0x05, make_op 0x05 0 2 1 OpSdiv),
     (0x06, make_op 0x06 0 2 1 OpMod),
     (0x07, make_op 0x07 0 2 1 OpSmod),
     (0x08, make_op 0x08 0 2 1 OpAddmod),
     (0x09, make_op 0x09 0 2 1 OpMulmod),
     (0x0a, make_op 0x0a 0 2 1 OpExp),
     (0x0b, make_op 0x0b 0 2 1 OpSignExtend),
     (0x10, make_op 0x10 0 2 1 OpLt),
     (0x11, make_op 0x11 0 2 1 OpGt),
     (0x12, make_op 0x12 0 2 1 OpSlt),
     (0x13, make_op 0x13 0 2 1 OpSgt),
     (0x14, make_op 0x14 0 2 1 OpEq),
     (0x15, make_op 0x15 0 1 1 OpIszero),
     (0x16, make_op 0x16 0 2 1 OpAnd),
     (0x17, make_op 0x17 0 2 1 OpOr),
     (0x18, make_op 0x18 0 2 1 OpXor),
     (0x19, make_op 0x19 0 1 1 OpNot),
     (0x1a, make_op 0x1a 0 2 1 OpByte),
     (0x1b, make_op 0x1b 0 2 1 OpSHL),
     (0x1c, make_op 0x1c 0 2 1 OpSHR),
     (0x1d, make_op 0x1d 0 2 1 OpSAR),
     (0x20, make_op 0x20 0 2 1 OpSha3),
     (0x30, make_op 0x30 0 0 1 OpAddress),
     (0x31, make_op 0x31 0 1 1 OpBalance),
     (0x32, make_op 0x32 0 0 1 OpOrigin),
     (0x33, make_op 0x33 0 0 1 OpCaller),
     (0x34, make_op 0x34 0 0 1 OpCallValue),
     (0x35, make_op 0x35 0 0 1 OpCallDataLoad),
     (0x36, make_op 0x36 0 0 1 OpCallDataSize),
     (0x37, make_op 0x37 0 3 0 OpCallDataCopy),
     (0x38, make_op 0x38 0 0 1 OpCodeSize),
     (0x39, make_op 0x39 0 3 0 OpCodeCopy),
     (0x3a, make_op 0x3a 0 0 1 OpGasprice),
     (0x3b, make_op 0x3b 0 0 1 OpExtCodeSize),
     (0x3c, make_op 0x3c 0 4 0 OpExtCodeCopy),
     (0x3d, make_op 0x3d 0 0 1 OpReturnDataSize),
     (0x3e, make_op 0x3e 0 3 0 OpReturnDataCopy),
     (0x3f, make_op 0x3f 0 1 1 OpExtCodeHash),
     (0x40, make_op 0x40 0 1 1 OpBlockhash),
     (0x41, make_op 0x41 0 0 1 OpCoinbase),
     (0x42, make_op 0x42 0 0 1 OpTimestamp),
     (0x43, make_op 0x43 0 0 1 OpNumber),
     (0x44, make_op 0x44 0 0 1 OpDifficulty),
     (0x45, make_op 0x45 0 0 1 OpGasLimit),
     (0x46, make_op 0x46 0 0 1 OpChainID),
     (0x47, make_op 0x47 0 0 1 OpSelfBalance),
     (0x48, make_op 0x48 0 0 1 OpBaseFee),
     (0x50, make_op 0x50 0 1 0 OpPop),
     (0x51, make_op 0x51 0 1 1 OpMload),
     (0x52, make_op 0x52 0 2 0 OpMstore),
     (0x53, make_op 0x53 0 2 0 OpMstore8),
     (0x54, make_op 0x54 0 1 1 OpSload),
     (0x55, make_op 0x55 0 2 0 OpSstore),
     (0x56, make_op 0x56 0 1 0 OpJump),
     (0x57, make_op 0x57 0 2 0 OpJumpi),
     (0x58, make_op 0x58 0 0 1 OpPc),
     (0x59, make_op 0x59 0 0 1 OpMsize),
     (0x5a, make_op 0x5a 0 0 1 OpGas),
     (0x5b, make_op 0x5b 0 0 0 OpJumpdest),
     (0x60, make_op 0x60 1 0 1 (MakePush 1)),
     (0x61, make_op 0x61 2 0 1 (MakePush 2)),
     (0x62, make_op 0x62 3 0 1 (MakePush 3)),
     (0x63, make_op 0x63 4 0 1 (MakePush 4)),
     (0x64, make_op 0x64 5 0 1 (MakePush 5)),
     (0x65, make_op 0x65 6 0 1 (MakePush 6)),
     (0x66, make_op 0x66 7 0 1 (MakePush 7)),
     (0x67, make_op 0x67 8 0 1 (MakePush 8)),
     (0x68, make_op 0x68 9 0 1 (MakePush 9)),
     (0x69, make_op 0x69 10 0 1 (MakePush 10)),
     (0x6a, make_op 0x6a 11 0 1 (MakePush 11)),
     (0x6b, make_op 0x6b 12 0 1 (MakePush 12)),
     (0x6c, make_op 0x6c 13 0 1 (MakePush 13)),
     (0x6d, make_op 0x6d 14 0 1 (MakePush 14)),
     (0x6e, make_op 0x6e 15 0 1 (MakePush 15)),
     (0x6f, make_op 0x6f 16 0 1 (MakePush 16)),
     (0x70, make_op 0x70 17 0 1 (MakePush 17)),
     (0x71, make_op 0x71 18 0 1 (MakePush 18)),
     (0x72, make_op 0x72 19 0 1 (MakePush 19)),
     (0x73, make_op 0x73 20 0 1 (MakePush 20)),
     (0x74, make_op 0x74 21 0 1 (MakePush 21)),
     (0x75, make_op 0x75 22 0 1 (MakePush 22)),
     (0x76, make_op 0x76 23 0 1 (MakePush 23)),
     (0x77, make_op 0x77 24 0 1 (MakePush 24)),
     (0x78, make_op 0x78 25 0 1 (MakePush 25)),
     (0x79, make_op 0x79 26 0 1 (MakePush 26)),
     (0x7a, make_op 0x7a 27 0 1 (MakePush 27)),
     (0x7b, make_op 0x7b 28 0 1 (MakePush 28)),
     (0x7c, make_op 0x7c 29 0 1 (MakePush 29)),
     (0x7d, make_op 0x7d 30 0 1 (MakePush 30)),
     (0x7e, make_op 0x7e 31 0 1 (MakePush 31)),
     (0x7f, make_op 0x7f 32 0 1 (MakePush 32)),
     (0x80, make_op 0x80 0 0 1 (MakeDup 1)),
     (0x81, make_op 0x81 0 0 1 (MakeDup 2)),
     (0x82, make_op 0x82 0 0 1 (MakeDup 3)),
     (0x83, make_op 0x83 0 0 1 (MakeDup 4)),
     (0x84, make_op 0x84 0 0 1 (MakeDup 5)),
     (0x85, make_op 0x85 0 0 1 (MakeDup 6)),
     (0x86, make_op 0x86 0 0 1 (MakeDup 7)),
     (0x87, make_op 0x87 0 0 1 (MakeDup 8)),
     (0x88, make_op 0x88 0 0 1 (MakeDup 9)),
     (0x89, make_op 0x89 0 0 1 (MakeDup 10)),
     (0x8a, make_op 0x8a 0 0 1 (MakeDup 11)),
     (0x8b, make_op 0x8b 0 0 1 (MakeDup 12)),
     (0x8c, make_op 0x8c 0 0 1 (MakeDup 13)),
     (0x8d, make_op 0x8d 0 0 1 (MakeDup 14)),
     (0x8e, make_op 0x8e 0 0 1 (MakeDup 15)),
     (0x8f, make_op 0x8f 0 0 1 (MakeDup 16)),
     (0x90, make_op 0x90 0 0 0 (MakeSwap 1)),
     (0x91, make_op 0x91 0 0 0 (MakeSwap 2)),
     (0x92, make_op 0x92 0 0 0 (MakeSwap 3)),
     (0x93, make_op 0x93 0 0 0 (MakeSwap 4)),
     (0x94, make_op 0x94 0 0 0 (MakeSwap 5)),
     (0x95, make_op 0x95 0 0 0 (MakeSwap 6)),
     (0x96, make_op 0x96 0 0 0 (MakeSwap 7)),
     (0x97, make_op 0x97 0 0 0 (MakeSwap 8)),
     (0x98, make_op 0x98 0 0 0 (MakeSwap 9)),
     (0x99, make_op 0x99 0 0 0 (MakeSwap 10)),
     (0x9a, make_op 0x9a 0 0 0 (MakeSwap 11)),
     (0x9b, make_op 0x9b 0 0 0 (MakeSwap 12)),
     (0x9c, make_op 0x9c 0 0 0 (MakeSwap 13)),
     (0x9d, make_op 0x9d 0 0 0 (MakeSwap 14)),
     (0x9e, make_op 0x9e 0 0 0 (MakeSwap 15)),
     (0x9f, make_op 0x9f 0 0 0 (MakeSwap 16)),
     (0xa0, make_op 0xa0 0 2 0 (MakeLog 0)),
     (0xa1, make_op 0xa1 0 3 0 (MakeLog 1)),
     (0xa2, make_op 0xa2 0 4 0 (MakeLog 2)),
     (0xa3, make_op 0xa3 0 5 0 (MakeLog 3)),
     (0xa4, make_op 0xa4 0 6 0 (MakeLog 4)),
     (0xf0, make_op 0xf0 0 0 0 OpCreate),
     (0xf1, make_op 0xf1 0 7 0 OpCall),
     (0xf2, make_op 0xf2 0 0 0 OpCallCode),
     (0xf3, make_op 0xf3 0 2 0 OpReturn),
     (0xf4, make_op 0xf4 0 6 0 OpDelegateCall),
     (0xf5, make_op 0xf5 0 0 0 OpCreate2),
     (0xfa, make_op 0xfa 0 6 0 OpStaticCall),
     (0xfd, make_op 0xfd 0 2 0 OpRevert),
     (0xfe, make_op 0xfe 0 1 0 OpAssert),
     (0xff, make_op 0xff 0 1 0 OpSuicide)]"

definition OpTable :: "byte \<rightharpoonup> Operation" where
  "OpTable = map_of OpTableList"

section \<open>Disassembler\<close>

text \<open>
  \<open>Line.Op\<close> points at an entry of the table, which never changes: the model keeps
  the entry itself.
\<close>

record Line =
  Line_Pc :: u64
  LineNum :: u64
  Line_Op :: Operation
  Line_Data :: "byte list"

record Asm =
  sequence :: "Line list"
  mapPc :: "u64 \<rightharpoonup> Line"

definition Reset :: "Asm" where
  "Reset = \<lparr>sequence = [], mapPc = Map.empty\<rparr>"

definition LineAtPc :: "Asm \<Rightarrow> u64 \<Rightarrow> error + Line" where
  "LineAtPc a pc = (case mapPc a pc of None \<Rightarrow> Inl (ErrInvalidPc pc) | Some line \<Rightarrow> Inr line)"

definition BigEndian_Uint16 :: "byte list \<Rightarrow> 16 word" where
  "BigEndian_Uint16 b = ucast (b ! 1) OR push_bit 8 (ucast (b ! 0))"

text \<open>
  The scanning loop of \<open>Disasm\<close>. \<open>pc\<close> never exceeds \<open>len(code)\<close>, which fits
  an \<open>int\<close>, and no \<open>OpSize\<close> of the table exceeds 32, so the \<open>uint64\<close> sums do
  not wrap: \<open>pc\<close> is a natural number here. Both early returns (unknown opcode, not
  enough bytes for the immediate) print a warning and return \<open>nil\<close>.
\<close>

function Disasm_loop :: "byte list \<Rightarrow> nat \<Rightarrow> Asm \<Rightarrow> Asm" where
  "Disasm_loop code pc a =
     (if pc < length code then
        (case OpTable (code ! pc) of
           None \<Rightarrow> a
         | Some op \<Rightarrow>
             if pc + 1 + unat (OpSize op) > length code then a
             else
               (let line = \<lparr>Line_Pc = of_nat pc, LineNum = of_nat (length (sequence a)),
                             Line_Op = op,
                             Line_Data = take (unat (OpSize op)) (drop (pc + 1) code)\<rparr>
                in Disasm_loop code (pc + 1 + unat (OpSize op))
                     (a\<lparr>sequence := sequence a @ [line],
                        mapPc := (mapPc a)(of_nat pc \<mapsto> line)\<rparr>)))
      else a)"
  by pat_completeness auto
termination
  by (relation "measure (\<lambda>(code, pc, a). length code - pc)") auto

text \<open>
  \<open>Disasm\<close> resets the receiver, cuts the metadata block off and scans. It has no
  \<open>return\<close> of a non-nil error; the slice expression that cuts the metadata panics
  when its upper bound is negative.
\<close>

definition Disasm :: "Asm \<Rightarrow> byte list \<Rightarrow> (error option \<times> Asm) option" where
  "Disasm a code = do {
     code1 \<leftarrow>
       (if length code > 2 then do {
          last_2 \<leftarrow> slice code (int (length code) - 2) (int (length code));
          let meta_len = BigEndian_Uint16 last_2;
          slice code 0 (int (length code) - uint meta_len - 2)
        } else Some code);
     ok (Disasm_loop code1 0 Reset)
   }"

section \<open>Context\<close>

text \<open>\<open>Msg.Value\<close> is a \<open>*big.Int\<close> that is never nil.\<close>

record Msg =
  Data :: "byte list"
  Gas :: u64
  Sender :: address
  Value :: int

record Tx =
  Hash :: hash
  Origin :: address
  GasPrice :: u64

record Block =
  Number :: u64
  Timestamp :: u64
  Difficulty :: u64
  Coinbase :: address
  GasLimit :: u64
  BaseFee :: u64

record Chain =
  Id :: u64
  NodeUrl :: string

record Code =
  Binary :: "byte list"
  Asm :: "Asm option"

text \<open>\<open>Code.Disasm\<close> and \<open>Code.Set\<close>.\<close>

definition Code_Disasm :: "Code \<Rightarrow> byte list \<Rightarrow> (error option \<times> Code) option" where
  "Code_Disasm c code =
     (if Asm c \<noteq> None then ok c
      else do {
        (e, asm) \<leftarrow> Disasm Reset code;
        if e \<noteq> None then Some (e, c) else ok (c\<lparr>Asm := Some asm\<rparr>)
      })"

definition Code_Set :: "Code \<Rightarrow> byte list \<Rightarrow> (error option \<times> Code) option" where
  "Code_Set c code = do {
     (e, c1) \<leftarrow> Code_Disasm c code;
     if e \<noteq> None then Some (e, c1) else ok (c1\<lparr>Binary := code\<rparr>)
   }"

record Contract =
  Code :: Code
  Balance :: "int option"
  Storage :: "hash \<rightharpoonup> u256"

definition NewContract :: Contract where
  "NewContract = \<lparr>Code = \<lparr>Binary = [], Asm = None\<rparr>, Balance = None, Storage = Map.empty\<rparr>"

record Call =
  Msg :: Msg
  This :: address
  CodePtr :: "address option"
  Memory :: Memory
  Stack :: "u256 Stack"
  Pc :: u64
  OuterReturnOffset :: u64
  OuterReturnSize :: u64
  InnerReturnVal :: "byte list"

definition CodeAddress :: "Call \<Rightarrow> address" where
  "CodeAddress c = (case CodePtr c of Some a \<Rightarrow> a | None \<Rightarrow> This c)"

text \<open>
  The archive node behind \<open>ethclient.Client\<close>: what it answers to each request.
  \<open>ethClient = None\<close> is the nil client.
\<close>

record Client =
  BlockByNumber :: "u64 \<Rightarrow> error + hash"
  StorageAt :: "address \<Rightarrow> hash \<Rightarrow> u64 \<Rightarrow> error + byte list"
  CodeAt :: "address \<Rightarrow> u64 \<Rightarrow> error + byte list"
  BalanceAt :: "address \<Rightarrow> u64 \<Rightarrow> error + int"

text \<open>
  \<open>CallStack\<close> is a stack of pointers to \<open>Call\<close> objects. \<open>Calls\<close> is the heap
  they live in, a pointer being an index: a \<open>Call\<close> popped off the stack is still
  there for whoever holds the pointer. \<open>'h\<close> is the type of the attached hooks.
\<close>

record 'h Context =
  IsDone :: bool
  ethClient :: "Client option"
  Chain :: Chain
  Tx :: Tx
  Block :: Block
  Contracts :: "address \<rightharpoonup> Contract"
  Calls :: "Call list"
  CallStack :: "nat Stack"
  Hooks :: "'h list"
  BlockHashes :: "u64 \<rightharpoonup> hash"

text \<open>
  The methods of \<open>Context\<close> that reach into the current call. \<open>ctx.Call()\<close>
  dereferences the top of \<open>CallStack\<close> and panics when the stack is empty.
\<close>

definition ctx_CallPtr :: "'h Context \<Rightarrow> nat option" where
  "ctx_CallPtr ctx = do {
     p \<leftarrow> Peek (CallStack ctx);
     if p < length (Calls ctx) then Some p else None
   }"

definition ctx_Call :: "'h Context \<Rightarrow> Call option" where
  "ctx_Call ctx = do { p \<leftarrow> ctx_CallPtr ctx; Some (Calls ctx ! p) }"

definition upd_Call :: "nat \<Rightarrow> (Call \<Rightarrow> Call) \<Rightarrow> 'h Context \<Rightarrow> 'h Context" where
  "upd_Call p f ctx = ctx\<lparr>Calls := (Calls ctx)[p := f (Calls ctx ! p)]\<rparr>"

definition set_Stack :: "nat \<Rightarrow> u256 Stack \<Rightarrow> 'h Context \<Rightarrow> 'h Context" where
  "set_Stack p st ctx = upd_Call p (\<lambda>c. c\<lparr>Stack := st\<rparr>) ctx"

definition set_Memory :: "nat \<Rightarrow> Memory \<Rightarrow> 'h Context \<Rightarrow> 'h Context" where
  "set_Memory p m ctx = upd_Call p (\<lambda>c. c\<lparr>Memory := m\<rparr>) ctx"

definition set_Pc :: "nat \<Rightarrow> u64 \<Rightarrow> 'h Context \<Rightarrow> 'h Context" where
  "set_Pc p pc ctx = upd_Call p (\<lambda>c. c\<lparr>Pc := pc\<rparr>) ctx"

definition ctx_Code :: "'h Context \<Rightarrow> Code option" where
  "ctx_Code ctx = do {
     call \<leftarrow> ctx_Call ctx;
     contract \<leftarrow> Contracts ctx (CodeAddress call);
     Some (Code contract)
   }"

definition ctx_Line :: "'h Context \<Rightarrow> (error + Line) option" where
  "ctx_Line ctx = do {
     code \<leftarrow> ctx_Code ctx;
     asm \<leftarrow> Asm code;
     call \<leftarrow> ctx_Call ctx;
     Some (LineAtPc asm (Pc call))
   }"

definition ctx_Contract :: "'h Context \<Rightarrow> Contract option" where
  "ctx_Contract ctx = do { call \<leftarrow> ctx_Call ctx; Contracts ctx (This call) }"

text \<open>
  An opcode that only works on the operand stack of the current call: \<open>f\<close> is what it
  does to the stack, panics included.
\<close>

definition on_Stack ::
  "'h Context \<Rightarrow> (u256 Stack \<Rightarrow> u256 Stack option) \<Rightarrow> (error option \<times> 'h Context) option" where
  "on_Stack ctx f = do {
     p \<leftarrow> ctx_CallPtr ctx;
     st \<leftarrow> f (Stack (Calls ctx ! p));
     ok (set_Stack p st ctx)
   }"

section \<open>Environment resolver\<close>

definition get_online_block_hash :: "Client option \<Rightarrow> u64 \<Rightarrow> error + hash" where
  "get_online_block_hash client blockNum =
     (case client of
        None \<Rightarrow> Inl (ErrNoBlockHash blockNum)
      | Some cl \<Rightarrow> BlockByNumber cl blockNum)"

definition get_online_storage :: "Client option \<Rightarrow> address \<Rightarrow> u256 \<Rightarrow> u64 \<Rightarrow> error + u256" where
  "get_online_storage client address slot blockNum =
     (case client of
        None \<Rightarrow> Inl (ErrNoStorage address)
      | Some cl \<Rightarrow>
          if address = 0 \<or> blockNum = 0
          then Inl (ErrorNew ''invalid AddressThis or Block.Number'')
          else (case StorageAt cl address slot blockNum of
                  Inl e \<Rightarrow> Inl e
                | Inr bs \<Rightarrow> Inr (SetBytes bs)))"

definition get_online_code :: "Client option \<Rightarrow> address \<Rightarrow> u64 \<Rightarrow> error + byte list" where
  "get_online_code client address blockNum =
     (case client of
        None \<Rightarrow> Inl (ErrNoCode address)
      | Some cl \<Rightarrow>
          if address = 0 \<or> blockNum = 0
          then Inl (ErrorNew ''invalid AddressThis or Block.Number'')
          else CodeAt cl address blockNum)"

definition get_online_balance :: "Client option \<Rightarrow> address \<Rightarrow> u64 \<Rightarrow> error + int" where
  "get_online_balance client address blockNum =
     (case client of
        None \<Rightarrow> Inl (ErrNoBalance address)
      | Some cl \<Rightarrow>
          if address = 0 \<or> blockNum = 0
          then Inl (ErrorNew ''invalid AddressThis or Block.Number'')
          else BalanceAt cl address blockNum)"

definition ensure_contract_at :: "'h Context \<Rightarrow> address \<Rightarrow> Contract \<times> 'h Context" where
  "ensure_contract_at ctx addr =
     (case Contracts ctx addr of
        Some contract \<Rightarrow> (contract, ctx)
      | None \<Rightarrow> (NewContract, ctx\<lparr>Contracts := (Contracts ctx)(addr \<mapsto> NewContract)\<rparr>))"

definition ensure_balance :: "'h Context \<Rightarrow> address \<Rightarrow> (error + int) \<times> 'h Context" where
  "ensure_balance ctx address =
     (let (contract, ctx1) = ensure_contract_at ctx address
      in case Balance contract of
           Some bal \<Rightarrow> (Inr bal, ctx1)
         | None \<Rightarrow>
             (case get_online_balance (ethClient ctx1) address (Number (Block ctx1) - 1) of
                Inl e \<Rightarrow> (Inl e, ctx1)
              | Inr bal \<Rightarrow>
                  (Inr bal,
                   ctx1\<lparr>Contracts := (Contracts ctx1)(address \<mapsto> contract\<lparr>Balance := Some bal\<rparr>)\<rparr>)))"

text \<open>\<open>ensure_code\<close> disassembles what it fetched, which can panic.\<close>

definition ensure_code ::
  "'h Context \<Rightarrow> address \<Rightarrow> ((error + byte list) \<times> 'h Context) option" where
  "ensure_code ctx address =
     (let (contract, ctx1) = ensure_contract_at ctx address
      in if length (Binary (Code contract)) > 0 then Some (Inr (Binary (Code contract)), ctx1)
         else
           (case get_online_code (ethClient ctx1) address (Number (Block ctx1)) of
              Inl e \<Rightarrow> Some (Inl e, ctx1)
            | Inr binary \<Rightarrow> do {
                (e, code1) \<leftarrow> Code_Set (Code contract) binary;
                let ctx2 = ctx1\<lparr>Contracts := (Contracts ctx1)(address \<mapsto> contract\<lparr>Code := code1\<rparr>)\<rparr>;
                (case e of Some e \<Rightarrow> Some (Inl e, ctx2) | None \<Rightarrow> Some (Inr binary, ctx2))
              }))"

definition ensure_storage ::
  "'h Context \<Rightarrow> address \<Rightarrow> u256 \<Rightarrow> (error + u256) \<times> 'h Context" where
  "ensure_storage ctx address slot =
     (let (contract, ctx1) = ensure_contract_at ctx address
      in case Storage contract slot of
           Some val \<Rightarrow> (Inr val, ctx1)
         | None \<Rightarrow>
             (case get_online_storage (ethClient ctx1) address slot (Number (Block ctx1) - 1) of
                Inl e \<Rightarrow> (Inl e, ctx1)
              | Inr val \<Rightarrow>
                  (Inr val,
                   ctx1\<lparr>Contracts := (Contracts ctx1)
                          (address \<mapsto> contract\<lparr>Storage := (Storage contract)(slot \<mapsto> val)\<rparr>)\<rparr>)))"

definition ensure_block_hash :: "'h Context \<Rightarrow> u64 \<Rightarrow> (error + hash) \<times> 'h Context" where
  "ensure_block_hash ctx blockNum =
     (case BlockHashes ctx blockNum of
        Some h \<Rightarrow> (Inr h, ctx)
      | None \<Rightarrow>
          (case get_online_block_hash (ethClient ctx) blockNum of
             Inl e \<Rightarrow> (Inl e, ctx)
           | Inr h \<Rightarrow> (Inr h, ctx\<lparr>BlockHashes := (BlockHashes ctx)(blockNum \<mapsto> h)\<rparr>)))"

section \<open>Opcodes\<close>

text \<open>
  \<open>util.Sha3\<close> (Keccak-256) and go-ethereum's table of precompiled contracts are
  dependencies: the opcodes take them as \<open>lib\<close>.
\<close>

record Lib =
  Sha3 :: "byte list \<Rightarrow> byte list"
  PrecompiledContractsBerlin :: "address \<rightharpoonup> (byte list \<Rightarrow> error + byte list)"

definition bool_word :: "bool \<Rightarrow> u256" where
  "bool_word b = (if b then 1 else 0)"

definition opInvalid :: "'h Context \<Rightarrow> (error option \<times> 'h Context) option" where
  "opInvalid ctx = fail (ErrorNew ''invalid op'') ctx"

definition opAdd :: "'h Context \<Rightarrow> (error option \<times> 'h Context) option" where
  "opAdd ctx = on_Stack ctx (\<lambda>stack. do {
     (x, stack) \<leftarrow> Pop stack; y \<leftarrow> Peek stack;
     Some (Poke stack (x + y)) })"

definition opSub :: "'h Context \<Rightarrow> (error option \<times> 'h Context) option" where
  "opSub ctx = on_Stack ctx (\<lambda>stack. do {
     (x, stack) \<leftarrow> Pop stack; y \<leftarrow> Peek stack;
     Some (Poke stack (x - y)) })"

definition opMul :: "'h Context \<Rightarrow> (error option \<times> 'h Context) option" where
  "opMul ctx = on_Stack ctx (\<lambda>stack. do {
     (x, stack) \<leftarrow> Pop stack; y \<leftarrow> Peek stack;
     Some (Poke stack (x * y)) })"

definition opDiv :: "'h Context \<Rightarrow> (error option \<times> 'h Context) option" where
  "opDiv ctx = on_Stack ctx (\<lambda>stack. do {
     (x, stack) \<leftarrow> Pop stack; y \<leftarrow> Peek stack;
     Some (Poke stack (Div x y)) })"

definition opSdiv :: "'h Context \<Rightarrow> (error option \<times> 'h Context) option" where
  "opSdiv ctx = on_Stack ctx (\<lambda>stack. do {
     (x, stack) \<leftarrow> Pop stack; y \<leftarrow> Peek stack;
     Some (Poke stack (SDiv x y)) })"

definition opMod :: "'h Context \<Rightarrow> (error option \<times> 'h Context) option" where
  "opMod ctx = on_Stack ctx (\<lambda>stack. do {
     (x, stack) \<leftarrow> Pop stack; y \<leftarrow> Peek stack;
     Some (Poke stack (Mod x y)) })"

definition opSmod :: "'h Context \<Rightarrow> (error option \<times> 'h Context) option" where
  "opSmod ctx = on_Stack ctx (\<lambda>stack. do {
     (x, stack) \<leftarrow> Pop stack; y \<leftarrow> Peek stack;
     Some (Poke stack (SMod x y)) })"

definition opExp :: "'h Context \<Rightarrow> (error option \<times> 'h Context) option" where
  "opExp ctx = on_Stack ctx (\<lambda>stack. do {
     (base, stack) \<leftarrow> Pop stack; exponent \<leftarrow> Peek stack;
     Some (Poke stack (Exp base exponent)) })"

definition opSignExtend :: "'h Context \<Rightarrow> (error option \<times> 'h Context) option" where
  "opSignExtend ctx = on_Stack ctx (\<lambda>stack. do {
     (back, stack) \<leftarrow> Pop stack; num \<leftarrow> Peek stack;
     Some (Poke stack (ExtendSign num back)) })"

definition opNot :: "'h Context \<Rightarrow> (error option \<times> 'h Context) option" where
  "opNot ctx = on_Stack ctx (\<lambda>stack. do {
     x \<leftarrow> Peek stack;
     Some (Poke stack (NOT x)) })"

definition opLt :: "'h Context \<Rightarrow> (error option \<times> 'h Context) option" where
  "opLt ctx = on_Stack ctx (\<lambda>stack. do {
     (x, stack) \<leftarrow> Pop stack; y \<leftarrow> Peek stack;
     Some (Poke stack (bool_word (x < y))) })"

definition opGt :: "'h Context \<Rightarrow> (error option \<times> 'h Context) option" where
  "opGt ctx = on_Stack ctx (\<lambda>stack. do {
     (x, stack) \<leftarrow> Pop stack; y \<leftarrow> Peek stack;
     Some (Poke stack (bool_word (x > y))) })"

definition opSlt :: "'h Context \<Rightarrow> (error option \<times> 'h Context) option" where
  "opSlt ctx = on_Stack ctx (\<lambda>stack. do {
     (x, stack) \<leftarrow> Pop stack; y \<leftarrow> Peek stack;
     Some (Poke stack (bool_word (Slt x y))) })"

definition opSgt :: "'h Context \<Rightarrow> (error option \<times> 'h Context) option" where
  "opSgt ctx = on_Stack ctx (\<lambda>stack. do {
     (x, stack) \<leftarrow> Pop stack; y \<leftarrow> Peek stack;
     Some (Poke stack (bool_word (Sgt x y))) })"

definition opEq :: "'h Context \<Rightarrow> (error option \<times> 'h Context) option" where
  "opEq ctx = on_Stack ctx (\<lambda>stack. do {
     (x, stack) \<leftarrow> Pop stack; y \<leftarrow> Peek stack;
     Some (Poke stack (bool_word (x = y))) })"

definition opIszero :: "'h Context \<Rightarrow> (error option \<times> 'h Context) option" where
  "opIszero ctx = on_Stack ctx (\<lambda>stack. do {
     x \<leftarrow> Peek stack;
     Some (Poke stack (bool_word (x = 0))) })"

definition opAnd :: "'h Context \<Rightarrow> (error option \<times> 'h Context) option" where
  "opAnd ctx = on_Stack ctx (\<lambda>stack. do {
     (x, stack) \<leftarrow> Pop stack; y \<leftarrow> Peek stack;
     Some (Poke stack (x AND y)) })"

definition opOr :: "'h Context \<Rightarrow> (error option \<times> 'h Context) option" where
  "opOr ctx = on_Stack ctx (\<lambda>stack. do {
     (x, stack) \<leftarrow> Pop stack; y \<leftarrow> Peek stack;
     Some (Poke stack (x OR y)) })"

definition opXor :: "'h Context \<Rightarrow> (error option \<times> 'h Context) option" where
  "opXor ctx = on_Stack ctx (\<lambda>stack. do {
     (x, stack) \<leftarrow> Pop stack; y \<leftarrow> Peek stack;
     Some (Poke stack (x XOR y)) })"

definition opByte :: "'h Context \<Rightarrow> (error option \<times> 'h Context) option" where
  "opByte ctx = on_Stack ctx (\<lambda>stack. do {
     (th, stack) \<leftarrow> Pop stack; val \<leftarrow> Peek stack;
     Some (Poke stack (Byte val th)) })"

definition opAddmod :: "'h Context \<Rightarrow> (error option \<times> 'h Context) option" where
  "opAddmod ctx = on_Stack ctx (\<lambda>stack. do {
     (x, stack) \<leftarrow> Pop stack; (y, stack) \<leftarrow> Pop stack; z \<leftarrow> Peek stack;
     Some (Poke stack (if z = 0 then 0 else AddMod x y z)) })"

definition opMulmod :: "'h Context \<Rightarrow> (error option \<times> 'h Context) option" where
  "opMulmod ctx = on_Stack ctx (\<lambda>stack. do {
     (x, stack) \<leftarrow> Pop stack; (y, stack) \<leftarrow> Pop stack; z \<leftarrow> Peek stack;
     Some (Poke stack (MulMod x y z)) })"

definition opSHL :: "'h Context \<Rightarrow> (error option \<times> 'h Context) option" where
  "opSHL ctx = on_Stack ctx (\<lambda>stack. do {
     (shift, stack) \<leftarrow> Pop stack; val \<leftarrow> Peek stack;
     Some (Poke stack (if LtUint64 shift 256 then Lsh val (Uint64 shift) else 0)) })"

definition opSHR :: "'h Context \<Rightarrow> (error option \<times> 'h Context) option" where
  "opSHR ctx = on_Stack ctx (\<lambda>stack. do {
     (shift, stack) \<leftarrow> Pop stack; val \<leftarrow> Peek stack;
     Some (Poke stack (if LtUint64 shift 256 then Rsh val (Uint64 shift) else 0)) })"

definition opSAR :: "'h Context \<Rightarrow> (error option \<times> 'h Context) option" where
  "opSAR ctx = on_Stack ctx (\<lambda>stack. do {
     (shift, stack) \<leftarrow> Pop stack; val \<leftarrow> Peek stack;
     Some (Poke stack
       (if GtUint64 shift 256 then (if Sign val \<ge> 0 then 0 else - 1)
        else SRsh val (Uint64 shift))) })"

definition opSha3 :: "Lib \<Rightarrow> 'h Context \<Rightarrow> (error option \<times> 'h Context) option" where
  "opSha3 lib ctx = do {
     p \<leftarrow> ctx_CallPtr ctx;
     (offset, stack) \<leftarrow> Pop (Stack (Calls ctx ! p));
     sz \<leftarrow> Peek stack;
     data \<leftarrow> GetPtr (Memory (Calls ctx ! p)) (Uint64 offset) (Uint64 sz);
     ok (set_Stack p (Poke stack (SetBytes (Sha3 lib data))) ctx)
   }"

definition opAddress :: "'h Context \<Rightarrow> (error option \<times> 'h Context) option" where
  "opAddress ctx = do {
     p \<leftarrow> ctx_CallPtr ctx;
     let call = Calls ctx ! p;
     ok (set_Stack p (Push (Stack call) (AddressToWord (This call))) ctx)
   }"

definition opBalance :: "'h Context \<Rightarrow> (error option \<times> 'h Context) option" where
  "opBalance ctx = fail (ErrorNew ''TODO opBalance'') ctx"

definition opOrigin :: "'h Context \<Rightarrow> (error option \<times> 'h Context) option" where
  "opOrigin ctx = on_Stack ctx (\<lambda>stack. Some (Push stack (AddressToWord (Origin (Tx ctx)))))"

definition opCaller :: "'h Context \<Rightarrow> (error option \<times> 'h Context) option" where
  "opCaller ctx = do {
     p \<leftarrow> ctx_CallPtr ctx;
     let call = Calls ctx ! p;
     ok (set_Stack p (Push (Stack call) (AddressToWord (Sender (Msg call)))) ctx)
   }"

definition opCallValue :: "'h Context \<Rightarrow> (error option \<times> 'h Context) option" where
  "opCallValue ctx = do {
     p \<leftarrow> ctx_CallPtr ctx;
     let call = Calls ctx ! p;
     ok (set_Stack p (Push (Stack call) (FromBig (Value (Msg call)))) ctx)
   }"

text \<open>
  \<open>getData\<close>: \<open>start + size\<close> is a \<open>uint64\<close> sum and wraps; \<open>int(size)\<close> reads
  the word as signed.
\<close>

definition RightPadBytes :: "byte list \<Rightarrow> int \<Rightarrow> byte list" where
  "RightPadBytes sl l =
     (if l \<le> int (length sl) then sl else sl @ replicate (nat l - length sl) 0)"

definition getData :: "byte list \<Rightarrow> u64 \<Rightarrow> u64 \<Rightarrow> byte list option" where
  "getData data start sz =
     (let len = (of_nat (length data) :: u64);
          start = (if start > len then len else start);
          end0 = start + sz;
          end1 = (if end0 > len then len else end0)
      in do {
        sl \<leftarrow> slice data (uint start) (uint end1);
        Some (RightPadBytes sl (sint sz))
      })"

definition opCallDataLoad :: "'h Context \<Rightarrow> (error option \<times> 'h Context) option" where
  "opCallDataLoad ctx = do {
     p \<leftarrow> ctx_CallPtr ctx;
     let call = Calls ctx ! p;
     off \<leftarrow> Peek (Stack call);
     let (offset, overflow) = Uint64WithOverflow off;
     if \<not> overflow then do {
       data \<leftarrow> getData (Data (Msg call)) offset 32;
       ok (set_Stack p (Poke (Stack call) (SetBytes data)) ctx)
     } else ok (set_Stack p (Poke (Stack call) 0) ctx)
   }"

definition opCallDataSize :: "'h Context \<Rightarrow> (error option \<times> 'h Context) option" where
  "opCallDataSize ctx = do {
     p \<leftarrow> ctx_CallPtr ctx;
     let call = Calls ctx ! p;
     ok (set_Stack p (Push (Stack call) (SetUint64 (of_nat (length (Data (Msg call)))))) ctx)
   }"

definition opCallDataCopy :: "'h Context \<Rightarrow> (error option \<times> 'h Context) option" where
  "opCallDataCopy ctx = do {
     p \<leftarrow> ctx_CallPtr ctx;
     let call = Calls ctx ! p;
     (memOffset, stack) \<leftarrow> Pop (Stack call);
     (dataOffset, stack) \<leftarrow> Pop stack;
     (len, stack) \<leftarrow> Pop stack;
     let (dataOffset64, overflow) = Uint64WithOverflow dataOffset;
     let dataOffset64 = (if overflow then 0xffffffffffffffff else dataOffset64);
     data \<leftarrow> getData (Data (Msg call)) dataOffset64 (Uint64 len);
     m \<leftarrow> Set (Memory call) (Uint64 memOffset) (Uint64 len) data;
     ok (set_Memory p m (set_Stack p stack ctx))
   }"

definition opReturnDataSize :: "'h Context \<Rightarrow> (error option \<times> 'h Context) option" where
  "opReturnDataSize ctx = do {
     p \<leftarrow> ctx_CallPtr ctx;
     let call = Calls ctx ! p;
     ok (set_Stack p (Push (Stack call) (SetUint64 (of_nat (length (InnerReturnVal call))))) ctx)
   }"

definition opReturnDataCopy :: "'h Context \<Rightarrow> (error option \<times> 'h Context) option" where
  "opReturnDataCopy ctx = do {
     p \<leftarrow> ctx_CallPtr ctx;
     let call = Calls ctx ! p;
     (memOffset, stack) \<leftarrow> Pop (Stack call);
     (dataOffset, stack) \<leftarrow> Pop stack;
     (len, stack) \<leftarrow> Pop stack;
     let ctx1 = set_Stack p stack ctx;
     let (offset64, overflow) = Uint64WithOverflow dataOffset;
     if overflow then fail ErrReturnDataOutOfBounds ctx1
     else
       (let (end64, overflow) = Uint64WithOverflow (dataOffset + len)
        in if overflow \<or> (of_nat (length (InnerReturnVal call)) :: u64) < end64
           then fail ErrReturnDataOutOfBounds ctx1
           else do {
             data \<leftarrow> slice (InnerReturnVal call) (uint offset64) (uint end64);
             m \<leftarrow> Set (Memory call) (Uint64 memOffset) (Uint64 len) data;
             ok (set_Memory p m ctx1)
           })
   }"

definition opExtCodeSize :: "'h Context \<Rightarrow> (error option \<times> 'h Context) option" where
  "opExtCodeSize ctx = do {
     p \<leftarrow> ctx_CallPtr ctx;
     slot \<leftarrow> Peek (Stack (Calls ctx ! p));
     (r, ctx1) \<leftarrow> ensure_code ctx (Bytes20 slot);
     (case r of
        Inl e \<Rightarrow> fail e ctx1
      | Inr code \<Rightarrow>
          ok (set_Stack p (Poke (Stack (Calls ctx1 ! p)) (SetUint64 (of_nat (length code)))) ctx1))
   }"

definition opCodeSize :: "'h Context \<Rightarrow> (error option \<times> 'h Context) option" where
  "opCodeSize ctx = do {
     call \<leftarrow> ctx_Call ctx;
     (r, ctx1) \<leftarrow> ensure_code ctx (This call);
     (case r of
        Inl e \<Rightarrow> fail e ctx1
      | Inr code \<Rightarrow>
          on_Stack ctx1 (\<lambda>stack. Some (Push stack (SetUint64 (of_nat (length code))))))
   }"

definition opCodeCopy :: "'h Context \<Rightarrow> (error option \<times> 'h Context) option" where
  "opCodeCopy ctx = do {
     p \<leftarrow> ctx_CallPtr ctx;
     let call = Calls ctx ! p;
     (memOffset, stack) \<leftarrow> Pop (Stack call);
     (codeOffset, stack) \<leftarrow> Pop stack;
     (len, stack) \<leftarrow> Pop stack;
     let ctx1 = set_Stack p stack ctx;
     let (uint64CodeOffset, overflow) = Uint64WithOverflow codeOffset;
     let uint64CodeOffset = (if overflow then 0xffffffffffffffff else uint64CodeOffset);
     (r, ctx2) \<leftarrow> ensure_code ctx1 (This call);
     (case r of
        Inl e \<Rightarrow> fail e ctx2
      | Inr code \<Rightarrow> do {
          codeToCopy \<leftarrow> getData code uint64CodeOffset (Uint64 len);
          m \<leftarrow> Set (Memory (Calls ctx2 ! p)) (Uint64 memOffset) (Uint64 len) codeToCopy;
          ok (set_Memory p m ctx2)
        })
   }"

definition opExtCodeCopy :: "'h Context \<Rightarrow> (error option \<times> 'h Context) option" where
  "opExtCodeCopy ctx = do {
     p \<leftarrow> ctx_CallPtr ctx;
     let call = Calls ctx ! p;
     (a, stack) \<leftarrow> Pop (Stack call);
     (memOffset, stack) \<leftarrow> Pop stack;
     (codeOffset, stack) \<leftarrow> Pop stack;
     (len, stack) \<leftarrow> Pop stack;
     let ctx1 = set_Stack p stack ctx;
     let (uint64CodeOffset, overflow) = Uint64WithOverflow codeOffset;
     let uint64CodeOffset = (if overflow then 0xffffffffffffffff else uint64CodeOffset);
     (r, ctx2) \<leftarrow> ensure_code ctx1 (Bytes20 a);
     (case r of
        Inl e \<Rightarrow> fail e ctx2
      | Inr code \<Rightarrow> do {
          codeToCopy \<leftarrow> getData code uint64CodeOffset (Uint64 len);
          m \<leftarrow> Set (Memory (Calls ctx2 ! p)) (Uint64 memOffset) (Uint64 len) codeToCopy;
          ok (set_Memory p m ctx2)
        })
   }"

definition opExtCodeHash :: "Lib \<Rightarrow> 'h Context \<Rightarrow> (error option \<times> 'h Context) option" where
  "opExtCodeHash lib ctx = do {
     p \<leftarrow> ctx_CallPtr ctx;
     slot \<leftarrow> Peek (Stack (Calls ctx ! p));
     (r, ctx1) \<leftarrow> ensure_code ctx (Bytes20 slot);
     (case r of
        Inl e \<Rightarrow> fail e ctx1
      | Inr code \<Rightarrow>
          ok (set_Stack p (Poke (Stack (Calls ctx1 ! p)) (SetBytes (Sha3 lib code))) ctx1))
   }"

definition opGasprice :: "'h Context \<Rightarrow> (error option \<times> 'h Context) option" where
  "opGasprice ctx = on_Stack ctx (\<lambda>stack. Some (Push stack (SetUint64 (GasPrice (Tx ctx)))))"

definition opBlockhash :: "'h Context \<Rightarrow> (error option \<times> 'h Context) option" where
  "opBlockhash ctx = do {
     p \<leftarrow> ctx_CallPtr ctx;
     num \<leftarrow> Peek (Stack (Calls ctx ! p));
     let (num64, overflow) = Uint64WithOverflow num;
     if overflow then fail (ErrBlockHashOverflow num) ctx
     else
       (let upper = Number (Block ctx);
            lower = (if upper < 257 then 0 else upper - 256)
        in if num64 \<ge> lower \<and> num64 < upper then
             (case ensure_block_hash ctx num64 of
                (Inl e, ctx1) \<Rightarrow> fail e ctx1
              | (Inr h, ctx1) \<Rightarrow> ok (set_Stack p (Poke (Stack (Calls ctx1 ! p)) h) ctx1))
           else ok (set_Stack p (Poke (Stack (Calls ctx ! p)) 0) ctx))
   }"

definition opCoinbase :: "'h Context \<Rightarrow> (error option \<times> 'h Context) option" where
  "opCoinbase ctx = on_Stack ctx (\<lambda>stack. Some (Push stack (AddressToWord (Coinbase (Block ctx)))))"

text \<open>
  \<open>big.NewInt(int64(x))\<close> reads the \<open>uint64\<close> as signed before it goes back into a
  256-bit word.
\<close>

definition opTimestamp :: "'h Context \<Rightarrow> (error option \<times> 'h Context) option" where
  "opTimestamp ctx = on_Stack ctx (\<lambda>stack. Some (Push stack (FromBig (sint (Timestamp (Block ctx))))))"

definition opNumber :: "'h Context \<Rightarrow> (error option \<times> 'h Context) option" where
  "opNumber ctx = on_Stack ctx (\<lambda>stack. Some (Push stack (FromBig (sint (Number (Block ctx))))))"

definition opDifficulty :: "'h Context \<Rightarrow> (error option \<times> 'h Context) option" where
  "opDifficulty ctx = on_Stack ctx (\<lambda>stack. Some (Push stack (FromBig (sint (Difficulty (Block ctx))))))"

definition opGasLimit :: "'h Context \<Rightarrow> (error option \<times> 'h Context) option" where
  "opGasLimit ctx = on_Stack ctx (\<lambda>stack. Some (Push stack (SetUint64 (GasLimit (Block ctx)))))"

definition opPop :: "'h Context \<Rightarrow> (error option \<times> 'h Context) option" where
  "opPop ctx = on_Stack ctx (\<lambda>stack. do { (x, stack) \<leftarrow> Pop stack; Some stack })"

definition opMload :: "'h Context \<Rightarrow> (error option \<times> 'h Context) option" where
  "opMload ctx = do {
     p \<leftarrow> ctx_CallPtr ctx;
     let call = Calls ctx ! p;
     v \<leftarrow> Peek (Stack call);
     data \<leftarrow> GetPtr (Memory call) (Uint64 v) 32;
     ok (set_Stack p (Poke (Stack call) (SetBytes data)) ctx)
   }"

definition opMstore :: "'h Context \<Rightarrow> (error option \<times> 'h Context) option" where
  "opMstore ctx = do {
     p \<leftarrow> ctx_CallPtr ctx;
     let call = Calls ctx ! p;
     (ptr, stack) \<leftarrow> Pop (Stack call);
     (val, stack) \<leftarrow> Pop stack;
     m \<leftarrow> Set32 (Memory call) (Uint64 ptr) val;
     ok (set_Memory p m (set_Stack p stack ctx))
   }"

definition opMstore8 :: "'h Context \<Rightarrow> (error option \<times> 'h Context) option" where
  "opMstore8 ctx = do {
     p \<leftarrow> ctx_CallPtr ctx;
     let call = Calls ctx ! p;
     (ptr, stack) \<leftarrow> Pop (Stack call);
     (val, stack) \<leftarrow> Pop stack;
     m \<leftarrow> Set (Memory call) (Uint64 ptr) 1 [ucast (Uint64 val)];
     ok (set_Memory p m (set_Stack p stack ctx))
   }"

definition opSload :: "'h Context \<Rightarrow> (error option \<times> 'h Context) option" where
  "opSload ctx = do {
     p \<leftarrow> ctx_CallPtr ctx;
     let call = Calls ctx ! p;
     slot \<leftarrow> Peek (Stack call);
     (case ensure_storage ctx (This call) slot of
        (Inl e, ctx1) \<Rightarrow> fail e ctx1
      | (Inr val, ctx1) \<Rightarrow> ok (set_Stack p (Poke (Stack (Calls ctx1 ! p)) val) ctx1))
   }"

definition opSstore :: "'h Context \<Rightarrow> (error option \<times> 'h Context) option" where
  "opSstore ctx = do {
     p \<leftarrow> ctx_CallPtr ctx;
     let call = Calls ctx ! p;
     (slot, stack) \<leftarrow> Pop (Stack call);
     (val, stack) \<leftarrow> Pop stack;
     let ctx1 = set_Stack p stack ctx;
     contract \<leftarrow> Contracts ctx1 (This call);
     ok (ctx1\<lparr>Contracts := (Contracts ctx1)
              (This call \<mapsto> contract\<lparr>Storage := (Storage contract)(slot \<mapsto> val)\<rparr>)\<rparr>)
   }"

definition opJump :: "'h Context \<Rightarrow> (error option \<times> 'h Context) option" where
  "opJump ctx = do {
     p \<leftarrow> ctx_CallPtr ctx;
     (pos, stack) \<leftarrow> Pop (Stack (Calls ctx ! p));
     let ctx1 = set_Stack p stack ctx;
     code \<leftarrow> ctx_Code ctx1;
     let codeLen = (of_nat (length (Binary code)) :: u64);
     if Uint64 pos \<ge> codeLen then fail ErrInvalidJump ctx1
     else ok (set_Pc p (Uint64 pos) ctx1)
   }"

definition opJumpi :: "'h Context \<Rightarrow> (error option \<times> 'h Context) option" where
  "opJumpi ctx = do {
     p \<leftarrow> ctx_CallPtr ctx;
     (pos, stack) \<leftarrow> Pop (Stack (Calls ctx ! p));
     (cond, stack) \<leftarrow> Pop stack;
     let ctx1 = set_Stack p stack ctx;
     if cond \<noteq> 0 then do {
       code \<leftarrow> ctx_Code ctx1;
       let codeLen = (of_nat (length (Binary code)) :: u64);
       if Uint64 pos \<ge> codeLen then fail ErrInvalidJump ctx1
       else ok (set_Pc p (Uint64 pos) ctx1)
     } else ok (set_Pc p (Pc (Calls ctx1 ! p) + 1) ctx1)
   }"

definition opJumpdest :: "'h Context \<Rightarrow> (error option \<times> 'h Context) option" where
  "opJumpdest ctx = ok ctx"

definition opPc :: "'h Context \<Rightarrow> (error option \<times> 'h Context) option" where
  "opPc ctx = do {
     p \<leftarrow> ctx_CallPtr ctx;
     let call = Calls ctx ! p;
     ok (set_Stack p (Push (Stack call) (SetUint64 (Pc call))) ctx)
   }"

definition opMsize :: "'h Context \<Rightarrow> (error option \<times> 'h Context) option" where
  "opMsize ctx = do {
     p \<leftarrow> ctx_CallPtr ctx;
     let call = Calls ctx ! p;
     ok (set_Stack p (Push (Stack call) (SetUint64 (MemLen (Memory call)))) ctx)
   }"

definition opGas :: "'h Context \<Rightarrow> (error option \<times> 'h Context) option" where
  "opGas ctx = do {
     p \<leftarrow> ctx_CallPtr ctx;
     let call = Calls ctx ! p;
     ok (set_Stack p (Push (Stack call) (SetUint64 (Gas (Msg call)))) ctx)
   }"

definition opCreate :: "'h Context \<Rightarrow> (error option \<times> 'h Context) option" where
  "opCreate ctx = fail (ErrorNew ''TODO opCreate'') ctx"

definition opCreate2 :: "'h Context \<Rightarrow> (error option \<times> 'h Context) option" where
  "opCreate2 ctx = fail (ErrorNew ''TODO opCreate2'') ctx"

definition push_Call :: "Call \<Rightarrow> 'h Context \<Rightarrow> 'h Context" where
  "push_Call newCall ctx =
     ctx\<lparr>Calls := Calls ctx @ [newCall],
         CallStack := Push (CallStack ctx) (length (Calls ctx))\<rparr>"

definition do_opcall ::
  "Lib \<Rightarrow> 'h Context \<Rightarrow> u256 \<Rightarrow> u256 \<Rightarrow> u256 \<Rightarrow> u256 \<Rightarrow> u256 \<Rightarrow> u256 \<Rightarrow> u256 \<Rightarrow>
   (error option \<times> 'h Context) option" where
  "do_opcall lib ctx gas addr val inOffset inSize retOffset retSize = do {
     p \<leftarrow> ctx_CallPtr ctx;
     let toAddr = Bytes20 addr;
     input \<leftarrow> GetPtr (Memory (Calls ctx ! p)) (Uint64 inOffset) (Uint64 inSize);
     (case PrecompiledContractsBerlin lib toAddr of
        Some precompiled \<Rightarrow>
          (case precompiled input of
             Inl e \<Rightarrow> fail (ErrorWrap e (MsgText ''Precompiled'')) ctx
           | Inr output \<Rightarrow> do {
               let ctx1 = upd_Call p (\<lambda>c. c\<lparr>InnerReturnVal := output\<rparr>) ctx;
               m \<leftarrow> Set (Memory (Calls ctx1 ! p)) (Uint64 retOffset) (Uint64 retSize) output;
               let ctx2 = set_Memory p m ctx1;
               ok (set_Stack p (Push (Stack (Calls ctx2 ! p)) 1) ctx2)
             })
      | None \<Rightarrow> do {
          (r, ctx1) \<leftarrow> ensure_code ctx toAddr;
          (case r of
             Inl e \<Rightarrow> fail e ctx1
           | Inr code \<Rightarrow>
               (let bigVal = (if val \<noteq> 0 then ToBig val else 0);
                    currCall = Calls ctx1 ! p;
                    newCall = \<lparr>Msg = \<lparr>Data = input, Gas = Gas (Msg currCall),
                                      Sender = This currCall, Value = bigVal\<rparr>,
                               This = toAddr, CodePtr = None, Memory = [], Stack = [], Pc = 0,
                               OuterReturnOffset = Uint64 retOffset,
                               OuterReturnSize = Uint64 retSize,
                               InnerReturnVal = []\<rparr>
                in ok (push_Call newCall ctx1)))
        })
   }"

definition opCall :: "Lib \<Rightarrow> 'h Context \<Rightarrow> (error option \<times> 'h Context) option" where
  "opCall lib ctx = do {
     p \<leftarrow> ctx_CallPtr ctx;
     (gas, stack) \<leftarrow> Pop (Stack (Calls ctx ! p));
     (addr, stack) \<leftarrow> Pop stack;
     (val, stack) \<leftarrow> Pop stack;
     (inOffset, stack) \<leftarrow> Pop stack;
     (inSize, stack) \<leftarrow> Pop stack;
     (retOffset, stack) \<leftarrow> Pop stack;
     (retSize, stack) \<leftarrow> Pop stack;
     if inSize = 0 then ok (set_Stack p (Push stack 1) ctx)
     else do_opcall lib (set_Stack p stack ctx) gas addr val inOffset inSize retOffset retSize
   }"

definition opCallCode :: "'h Context \<Rightarrow> (error option \<times> 'h Context) option" where
  "opCallCode ctx = fail (ErrorNew ''TODO opCallCode'') ctx"

definition opDelegateCall :: "'h Context \<Rightarrow> (error option \<times> 'h Context) option" where
  "opDelegateCall ctx = do {
     p \<leftarrow> ctx_CallPtr ctx;
     (gas, stack) \<leftarrow> Pop (Stack (Calls ctx ! p));
     (addr, stack) \<leftarrow> Pop stack;
     (inOffset, stack) \<leftarrow> Pop stack;
     (inSize, stack) \<leftarrow> Pop stack;
     (retOffset, stack) \<leftarrow> Pop stack;
     (retSize, stack) \<leftarrow> Pop stack;
     let toAddr = Bytes20 addr;
     (r, ctx1) \<leftarrow> ensure_code (set_Stack p stack ctx) toAddr;
     (case r of
        Inl e \<Rightarrow> fail e ctx1
      | Inr code \<Rightarrow> do {
          let currCall = Calls ctx1 ! p;
          args \<leftarrow> GetPtr (Memory currCall) (Uint64 inOffset) (Uint64 inSize);
          let newCall = \<lparr>Msg = \<lparr>Data = args, Gas = Gas (Msg currCall),
                                Sender = Sender (Msg currCall), Value = Value (Msg currCall)\<rparr>,
                         This = This currCall, CodePtr = Some toAddr, Memory = [], Stack = [],
                         Pc = 0,
                         OuterReturnOffset = Uint64 retOffset,
                         OuterReturnSize = Uint64 retSize,
                         InnerReturnVal = []\<rparr>;
          ok (push_Call newCall ctx1)
        })
   }"

definition opStaticCall :: "Lib \<Rightarrow> 'h Context \<Rightarrow> (error option \<times> 'h Context) option" where
  "opStaticCall lib ctx = do {
     p \<leftarrow> ctx_CallPtr ctx;
     (gas, stack) \<leftarrow> Pop (Stack (Calls ctx ! p));
     (addr, stack) \<leftarrow> Pop stack;
     (inOffset, stack) \<leftarrow> Pop stack;
     (inSize, stack) \<leftarrow> Pop stack;
     (retOffset, stack) \<leftarrow> Pop stack;
     (retSize, stack) \<leftarrow> Pop stack;
     do_opcall lib (set_Stack p stack ctx) gas addr 0 inOffset inSize retOffset retSize
   }"

definition opReturn :: "'h Context \<Rightarrow> (error option \<times> 'h Context) option" where
  "opReturn ctx = do {
     p \<leftarrow> ctx_CallPtr ctx;
     (offset, stack) \<leftarrow> Pop (Stack (Calls ctx ! p));
     (sz, stack) \<leftarrow> Pop stack;
     let ctx1 = set_Stack p stack ctx;
     let call = Calls ctx1 ! p;
     output \<leftarrow> GetPtr (Memory call) (Uint64 offset) (Uint64 sz);
     if Len (CallStack ctx1) > 1 then do {
       (popped, cs) \<leftarrow> Pop (CallStack ctx1);
       let ctx2 = ctx1\<lparr>CallStack := cs\<rparr>;
       q \<leftarrow> ctx_CallPtr ctx2;
       let ctx3 = upd_Call q (\<lambda>c. c\<lparr>InnerReturnVal := output\<rparr>) ctx2;
       m \<leftarrow> Set (Memory (Calls ctx3 ! q)) (OuterReturnOffset call) (OuterReturnSize call) output;
       let ctx4 = set_Memory q m ctx3;
       ok (set_Stack q (Push (Stack (Calls ctx4 ! q)) 1) ctx4)
     } else ok (ctx1\<lparr>IsDone := True\<rparr>)
   }"

definition opRevert :: "'h Context \<Rightarrow> (error option \<times> 'h Context) option" where
  "opRevert ctx = do {
     p \<leftarrow> ctx_CallPtr ctx;
     (offset, stack) \<leftarrow> Pop (Stack (Calls ctx ! p));
     (sz, stack) \<leftarrow> Pop stack;
     ret \<leftarrow> GetPtr (Memory (Calls ctx ! p)) (Uint64 offset) (Uint64 sz);
     fail (ErrorNew ''Reverted'') (set_Stack p stack ctx)
   }"

definition opAssert :: "'h Context \<Rightarrow> (error option \<times> 'h Context) option" where
  "opAssert ctx = fail (ErrorNew ''TODO: opcode Assert'') ctx"

definition opStop :: "'h Context \<Rightarrow> (error option \<times> 'h Context) option" where
  "opStop ctx =
     (if Len (CallStack ctx) > 1 then do {
        (popped, cs) \<leftarrow> Pop (CallStack ctx);
        on_Stack (ctx\<lparr>CallStack := cs\<rparr>) (\<lambda>stack. Some (Push stack 1))
      } else ok (ctx\<lparr>IsDone := True\<rparr>))"

definition opSuicide :: "'h Context \<Rightarrow> (error option \<times> 'h Context) option" where
  "opSuicide ctx = do {
     p \<leftarrow> ctx_CallPtr ctx;
     (beneficiary, stack) \<leftarrow> Pop (Stack (Calls ctx ! p));
     fail (ErrSuicide beneficiary) (set_Stack p stack ctx)
   }"

definition opChainID :: "'h Context \<Rightarrow> (error option \<times> 'h Context) option" where
  "opChainID ctx = on_Stack ctx (\<lambda>stack. Some (Push stack (SetUint64 (Id (Chain ctx)))))"

definition opSelfBalance :: "'h Context \<Rightarrow> (error option \<times> 'h Context) option" where
  "opSelfBalance ctx = do {
     call \<leftarrow> ctx_Call ctx;
     (case ensure_balance ctx (This call) of
        (Inl e, ctx1) \<Rightarrow> fail e ctx1
      | (Inr bal, ctx1) \<Rightarrow> on_Stack ctx1 (\<lambda>stack. Some (Push stack (FromBig bal))))
   }"

definition opBaseFee :: "'h Context \<Rightarrow> (error option \<times> 'h Context) option" where
  "opBaseFee ctx = on_Stack ctx (\<lambda>stack. Some (Push stack (SetUint64 (BaseFee (Block ctx)))))"

text \<open>\<open>makePush\<close>: the sums \<open>*pc+1+n\<close> are \<open>uint64\<close> sums.\<close>

definition makePush :: "u64 \<Rightarrow> 'h Context \<Rightarrow> (error option \<times> 'h Context) option" where
  "makePush n ctx = do {
     code \<leftarrow> ctx_Code ctx;
     p \<leftarrow> ctx_CallPtr ctx;
     let call = Calls ctx ! p;
     let codeLen = (of_nat (length (Binary code)) :: u64);
     let pc = Pc call;
     if pc + 1 + n > codeLen then fail (ErrorNew ''opPushN not enough data'') ctx
     else do {
       imm \<leftarrow> slice (Binary code) (uint (pc + 1)) (uint (pc + 1 + n));
       ok (set_Pc p (pc + n) (set_Stack p (Push (Stack call) (SetBytes imm)) ctx))
     }
   }"

definition makeDup :: "int \<Rightarrow> 'h Context \<Rightarrow> (error option \<times> 'h Context) option" where
  "makeDup sz ctx = on_Stack ctx (\<lambda>stack. Dup stack sz)"

definition makeSwap :: "int \<Rightarrow> 'h Context \<Rightarrow> (error option \<times> 'h Context) option" where
  "makeSwap sz ctx = on_Stack ctx (\<lambda>stack. Swap stack (sz + 1))"

fun PopN :: "nat \<Rightarrow> 'a Stack \<Rightarrow> 'a Stack option" where
  "PopN 0 st = Some st"
| "PopN (Suc n) st = do { (x, st) \<leftarrow> Pop st; PopN n st }"

definition makeLog :: "int \<Rightarrow> 'h Context \<Rightarrow> (error option \<times> 'h Context) option" where
  "makeLog sz ctx = on_Stack ctx (\<lambda>stack. do {
     (x, stack) \<leftarrow> Pop stack;
     (y, stack) \<leftarrow> Pop stack;
     PopN (nat sz) stack })"

text \<open>Calling the function an \<open>Operation\<close> points at.\<close>

definition apply_exec ::
  "Lib \<Rightarrow> exec_id \<Rightarrow> 'h Context \<Rightarrow> (error option \<times> 'h Context) option" where
  "apply_exec lib f ctx =
     (case f of
        OpStop \<Rightarrow> opStop ctx | OpAdd \<Rightarrow> opAdd ctx | OpMul \<Rightarrow> opMul ctx
      | OpSub \<Rightarrow> opSub ctx | OpDiv \<Rightarrow> opDiv ctx | OpSdiv \<Rightarrow> opSdiv ctx
      | OpMod \<Rightarrow> opMod ctx | OpSmod \<Rightarrow> opSmod ctx | OpAddmod \<Rightarrow> opAddmod ctx
      | OpMulmod \<Rightarrow> opMulmod ctx | OpExp \<Rightarrow> opExp ctx
      | OpSignExtend \<Rightarrow> opSignExtend ctx | OpLt \<Rightarrow> opLt ctx | OpGt \<Rightarrow> opGt ctx
      | OpSlt \<Rightarrow> opSlt ctx | OpSgt \<Rightarrow> opSgt ctx | OpEq \<Rightarrow> opEq ctx
      | OpIszero \<Rightarrow> opIszero ctx | OpAnd \<Rightarrow> opAnd ctx | OpOr \<Rightarrow> opOr ctx
      | OpXor \<Rightarrow> opXor ctx | OpNot \<Rightarrow> opNot ctx | OpByte \<Rightarrow> opByte ctx
      | OpSHL \<Rightarrow> opSHL ctx | OpSHR \<Rightarrow> opSHR ctx | OpSAR \<Rightarrow> opSAR ctx
      | OpSha3 \<Rightarrow> opSha3 lib ctx | OpAddress \<Rightarrow> opAddress ctx
      | OpBalance \<Rightarrow> opBalance ctx | OpOrigin \<Rightarrow> opOrigin ctx
      | OpCaller \<Rightarrow> opCaller ctx | OpCallValue \<Rightarrow> opCallValue ctx
      | OpCallDataLoad \<Rightarrow> opCallDataLoad ctx | OpCallDataSize \<Rightarrow> opCallDataSize ctx
      | OpCallDataCopy \<Rightarrow> opCallDataCopy ctx | OpCodeSize \<Rightarrow> opCodeSize ctx
      | OpCodeCopy \<Rightarrow> opCodeCopy ctx | OpGasprice \<Rightarrow> opGasprice ctx
      | OpExtCodeSize \<Rightarrow> opExtCodeSize ctx | OpExtCodeCopy \<Rightarrow> opExtCodeCopy ctx
      | OpReturnDataSize \<Rightarrow> opReturnDataSize ctx
      | OpReturnDataCopy \<Rightarrow> opReturnDataCopy ctx
      | OpExtCodeHash \<Rightarrow> opExtCodeHash lib ctx | OpBlockhash \<Rightarrow> opBlockhash ctx
      | OpCoinbase \<Rightarrow> opCoinbase ctx | OpTimestamp \<Rightarrow> opTimestamp ctx
      | OpNumber \<Rightarrow> opNumber ctx | OpDifficulty \<Rightarrow> opDifficulty ctx
      | OpGasLimit \<Rightarrow> opGasLimit ctx | OpChainID \<Rightarrow> opChainID ctx
      | OpSelfBalance \<Rightarrow> opSelfBalance ctx | OpBaseFee \<Rightarrow> opBaseFee ctx
      | OpPop \<Rightarrow> opPop ctx | OpMload \<Rightarrow> opMload ctx | OpMstore \<Rightarrow> opMstore ctx
      | OpMstore8 \<Rightarrow> opMstore8 ctx | OpSload \<Rightarrow> opSload ctx
      | OpSstore \<Rightarrow> opSstore ctx | OpJump \<Rightarrow> opJump ctx | OpJumpi \<Rightarrow> opJumpi ctx
      | OpPc \<Rightarrow> opPc ctx | OpMsize \<Rightarrow> opMsize ctx | OpGas \<Rightarrow> opGas ctx
      | OpJumpdest \<Rightarrow> opJumpdest ctx
      | MakePush n \<Rightarrow> makePush n ctx | MakeDup n \<Rightarrow> makeDup n ctx
      | MakeSwap n \<Rightarrow> makeSwap n ctx | MakeLog n \<Rightarrow> makeLog n ctx
      | OpCreate \<Rightarrow> opCreate ctx | OpCall \<Rightarrow> opCall lib ctx
      | OpCallCode \<Rightarrow> opCallCode ctx | OpReturn \<Rightarrow> opReturn ctx
      | OpDelegateCall \<Rightarrow> opDelegateCall ctx | OpCreate2 \<Rightarrow> opCreate2 ctx
      | OpStaticCall \<Rightarrow> opStaticCall lib ctx | OpRevert \<Rightarrow> opRevert ctx
      | OpAssert \<Rightarrow> opAssert ctx | OpSuicide \<Rightarrow> opSuicide ctx)"

section \<open>Hooks\<close>

text \<open>
  \<open>hook\<close> is an interface. A hook of type \<open>'h\<close> is an object with its own state;
  its two methods read the call and the line and return an error or \<open>nil\<close>, and the
  hook as the call left it. The hooks of a chain are distinct objects.
\<close>

record 'h hook_methods =
  PreRun :: "'h \<Rightarrow> Call \<Rightarrow> Line \<Rightarrow> error option \<times> 'h"
  PostRun :: "'h \<Rightarrow> Call \<Rightarrow> Line \<Rightarrow> error option \<times> 'h"

text \<open>
  The loop of \<open>PreRunAll\<close> and \<open>PostRunAll\<close> over \<open>hks.arr\<close>, with the variable
  \<open>err\<close> as accumulator; \<open>cb\<close> is the method the loop calls.
\<close>

fun RunAll_loop ::
  "('h \<Rightarrow> Call \<Rightarrow> Line \<Rightarrow> error option \<times> 'h) \<Rightarrow> 'h list \<Rightarrow> Call \<Rightarrow> Line \<Rightarrow>
   error option \<Rightarrow> error option \<times> 'h list" where
  "RunAll_loop cb [] call line err = (err, [])"
| "RunAll_loop cb (h # hs) call line err =
     (let (e, h1) = cb h call line;
          err1 = (if e \<noteq> None then e else err);
          (r, hs1) = RunAll_loop cb hs call line err1
      in (r, h1 # hs1))"

definition PreRunAll ::
  "'h hook_methods \<Rightarrow> 'h list \<Rightarrow> Call \<Rightarrow> Line \<Rightarrow> error option \<times> 'h list" where
  "PreRunAll I hks call line = RunAll_loop (PreRun I) hks call line None"

definition PostRunAll ::
  "'h hook_methods \<Rightarrow> 'h list \<Rightarrow> Call \<Rightarrow> Line \<Rightarrow> error option \<times> 'h list" where
  "PostRunAll I hks call line = RunAll_loop (PostRun I) hks call line None"

definition Attach :: "'h list \<Rightarrow> 'h \<Rightarrow> 'h list" where
  "Attach hks h = hks @ [h]"

definition Detach :: "'h list \<Rightarrow> int \<Rightarrow> 'h list" where
  "Detach hks i =
     (if i \<ge> 0 \<and> i < int (length hks)
      then take (nat i) hks @ drop (nat i + 1) hks
      else hks)"

definition List :: "'h list \<Rightarrow> 'h list" where
  "List hks = hks"

text \<open>The hooks of package \<open>hooks\<close> that break: at a pc, at an opcode.\<close>

datatype hook =
    EmptyHook
  | BpPc "address option" u64
  | BpOpCode "address option" byte

fun hook_PreRun :: "hook \<Rightarrow> Call \<Rightarrow> Line \<Rightarrow> error option \<times> hook" where
  "hook_PreRun EmptyHook call line = (None, EmptyHook)"
| "hook_PreRun (BpPc contract pc) call line =
     (if contract \<noteq> None \<and> the contract \<noteq> CodeAddress call then (None, BpPc contract pc)
      else if Line_Pc line \<noteq> pc then (None, BpPc contract pc)
      else (Some (ErrorWrap ErrBreakpoint (MsgBpPc contract pc)), BpPc contract pc))"
| "hook_PreRun (BpOpCode contract opc) call line =
     (if contract \<noteq> None \<and> the contract \<noteq> CodeAddress call then (None, BpOpCode contract opc)
      else if OpCode (Line_Op line) \<noteq> opc then (None, BpOpCode contract opc)
      else (Some (ErrorWrap ErrBreakpoint (MsgBpOpCode contract opc)), BpOpCode contract opc))"

fun hook_PostRun :: "hook \<Rightarrow> Call \<Rightarrow> Line \<Rightarrow> error option \<times> hook" where
  "hook_PostRun h call line = (None, h)"

definition hook_iface :: "hook hook_methods" where
  "hook_iface = \<lparr>PreRun = hook_PreRun, PostRun = hook_PostRun\<rparr>"

section \<open>Interpreter loop\<close>

text \<open>
  One pass through the body of the loop of \<open>Run\<close>. \<open>Some (Some e, ctx)\<close> is
  \<open>return e\<close>; \<open>Some (None, ctx)\<close> is the end of the body, before \<open>steps--\<close>.
  \<open>call\<close> is the pointer the body took at its start: the increment of \<open>Pc\<close> and
  \<open>PostRunAll\<close> use that object, whatever the opcode did to the call stack.
\<close>

definition Run_body ::
  "Lib \<Rightarrow> 'h hook_methods \<Rightarrow> bool \<Rightarrow> 'h Context \<Rightarrow> (error option \<times> 'h Context) option" where
  "Run_body lib I is_first_step ctx = do {
     call \<leftarrow> ctx_CallPtr ctx;
     r \<leftarrow> ctx_Line ctx;
     (case r of
        Inl e \<Rightarrow> fail e ctx
      | Inr line \<Rightarrow> do {
          let opcode = OpCode (Line_Op line);
          op \<leftarrow> OpTable opcode;
          let (e, hks) = PreRunAll I (Hooks ctx) (Calls ctx ! call) line;
          let ctx1 = ctx\<lparr>Hooks := hks\<rparr>;
          if e \<noteq> None \<and> \<not> is_first_step then Some (e, ctx1)
          else do {
            (e, ctx2) \<leftarrow> apply_exec lib (Exec op) ctx1;
            if e \<noteq> None then Some (e, ctx2)
            else
              (let ctx3 = (if opcode \<noteq> JUMP \<and> opcode \<noteq> JUMPI
                           then set_Pc call (Pc (Calls ctx2 ! call) + 1) ctx2 else ctx2);
                   (e, hks) = PostRunAll I (Hooks ctx3) (Calls ctx3 ! call) line;
                   ctx4 = ctx3\<lparr>Hooks := hks\<rparr>
               in if e \<noteq> None then Some (e, ctx4) else ok ctx4)
          }
        })
   }"

text \<open>
  The loop. \<open>steps\<close> is a Go \<open>int\<close>: \<open>steps--\<close> wraps. The loop need not end
  (\<open>steps < 0\<close> on code that jumps back): the outer \<open>None\<close> is a run that never
  returns, \<open>Some None\<close> a run that panics.
\<close>

partial_function (option) Run_loop ::
  "Lib \<Rightarrow> 'h hook_methods \<Rightarrow> bool \<Rightarrow> 64 word \<Rightarrow> 'h Context \<Rightarrow>
   (error option \<times> 'h Context) option option" where
  "Run_loop lib I is_first_step steps ctx =
     (if steps \<noteq> 0 \<and> \<not> IsDone ctx then
        (case Run_body lib I is_first_step ctx of
           None \<Rightarrow> Some None
         | Some (e, ctx1) \<Rightarrow>
             if e \<noteq> None then Some (Some (e, ctx1))
             else Run_loop lib I False (steps - 1) ctx1)
      else Some (ok ctx))"

definition Run ::
  "Lib \<Rightarrow> 'h hook_methods \<Rightarrow> 64 word \<Rightarrow> 'h Context \<Rightarrow>
   (error option \<times> 'h Context) option option" where
  "Run lib I steps ctx = Run_loop lib I True steps ctx"

definition zero_Call :: Call where
  "zero_Call =
     \<lparr>Msg = \<lparr>Data = [], Gas = 0, Sender = 0, Value = 0\<rparr>, This = 0, CodePtr = None,
      Memory = [], Stack = [], Pc = 0, OuterReturnOffset = 0, OuterReturnSize = 0,
      InnerReturnVal = []\<rparr>"

definition NewContext :: "'h Context" where
  "NewContext =
     \<lparr>IsDone = False, ethClient = None,
      Chain = \<lparr>Id = 0, NodeUrl = []\<rparr>,
      Tx = \<lparr>Hash = 0, Origin = 0, GasPrice = 0\<rparr>,
      Block = \<lparr>Number = 0, Timestamp = 0, Difficulty = 0, Coinbase = 0, GasLimit = 0,
               BaseFee = 0\<rparr>,
      Contracts = Map.empty,
      Calls = [zero_Call], CallStack = [0],
      Hooks = [], BlockHashes = Map.empty\<rparr>"

text \<open>
  A small context in the manner of \<open>NewSampleContext\<close>: one contract at
  \<open>address(this)\<close> holding \<open>code\<close>, one call with the given operand stack; a
  variant with a block number and one cached block hash; and a library whose only
  precompiled contract is the identity at address 4 (its hash function is a stand-in
  that no sample calls).
\<close>

definition sample_contract :: "byte list \<Rightarrow> Contract" where
  "sample_contract code =
     (case Code_Set (Code NewContract) code of
        Some (None, c) \<Rightarrow> NewContract\<lparr>Code := c\<rparr>
      | _ \<Rightarrow> NewContract)"

definition sample_ctx :: "byte list \<Rightarrow> u256 list \<Rightarrow> hook Context" where
  "sample_ctx code st =
     NewContext\<lparr>Contracts := [0 \<mapsto> sample_contract code], Calls := [zero_Call\<lparr>Stack := st\<rparr>]\<rparr>"

definition sample_lib :: Lib where
  "sample_lib = \<lparr>Sha3 = (\<lambda>bs. []), PrecompiledContractsBerlin = [4 \<mapsto> (\<lambda>input. Inr input)]\<rparr>"

definition sample_block_ctx :: "u256 \<Rightarrow> hook Context" where
  "sample_block_ctx n =
     (sample_ctx [] [n])\<lparr>Block := Block (sample_ctx [] [n])\<lparr>Number := 1000\<rparr>,
                          BlockHashes := [900 \<mapsto> 0xabcdef]\<rparr>"

text \<open>
  The sample context with a breakpoint at pc 0 attached, the line at its pc 0
  (\<open>JUMPDEST\<close>), and a hook interface whose \<open>PostRun\<close> always fails.
\<close>

definition sample_bp_ctx :: "hook Context" where
  "sample_bp_ctx = (sample_ctx [0x5b, 0x00] [])\<lparr>Hooks := [BpPc None 0]\<rparr>"

definition sample_post_iface :: "hook hook_methods" where
  "sample_post_iface =
     \<lparr>PreRun = hook_PreRun, PostRun = (\<lambda>h call line. (Some (ErrorNew ''post''), h))\<rparr>"

definition sample_line :: Line where
  "sample_line = \<lparr>Line_Pc = 0, LineNum = 0, Line_Op = make_op 0x5b 0 0 0 OpJumpdest, Line_Data = []\<rparr>"

section \<open>The specification's words\<close>

text \<open>
  The last non-nil error of a list of errors, \<open>nil\<close> when there is none: what the
  specification says a phase of the hook chain returns.
\<close>

definition last_non_nil :: "error option list \<Rightarrow> error option" where
  "last_non_nil es =
     (let xs = filter (\<lambda>e. e \<noteq> None) es in if xs = [] then None else last xs)"

text \<open>
  An exec function respects the arities \<open>nIn\<close> and \<open>nOut\<close> when every
  execution that returns without error, from a state whose call stack holds each call
  once, changes the depth of the operand stack of the call that was current by
  \<open>nOut - nIn\<close>.
\<close>

definition respects_arity ::
  "('h Context \<Rightarrow> (error option \<times> 'h Context) option) \<Rightarrow> nat \<Rightarrow> nat \<Rightarrow> bool" where
  "respects_arity exec nIn nOut \<longleftrightarrow>
     (\<forall>ctx ctx1 p. ctx_CallPtr ctx = Some p \<and> distinct (CallStack ctx) \<and>
        exec ctx = Some (None, ctx1) \<longrightarrow>
        length (Stack (Calls ctx1 ! p)) + nIn = length (Stack (Calls ctx ! p)) + nOut)"

section \<open>Memory: growth and the empty write\<close>

lemma Resize_length: "length (Resize m sz) = max (length m) (unat sz)"
  by (simp add: Resize_def)

lemma copy_into_length: "copy_into xs lo hi src = Some ys \<Longrightarrow> length ys = length xs"
  by (auto simp: copy_into_def Let_def split: if_splits)

lemma Set_length:
  "sz > 0 \<Longrightarrow> Set m offset sz val = Some m' \<Longrightarrow>
   length m' = max (length m) (unat (offset + sz))"
  by (auto simp: Set_def Let_def Resize_length dest!: copy_into_length split: if_splits)

lemma Set32_length:
  "Set32 m offset val = Some m' \<Longrightarrow> length m' = max (length m) (unat (offset + 32))"
  by (auto simp: Set32_def Let_def Resize_length dest!: copy_into_length
           split: if_splits bind_splits)

text \<open>
  Claim C7, as stated, fails: writing one byte into the empty memory leaves a memory
  of length 1, which is not a multiple of 32.
\<close>

theorem Set_growth_not_aligned:
  "map_option length (Set [] 0 1 [255]) = Some 1 \<and> \<not> 32 dvd (1 :: nat)"
  by (simp add: Set_def Resize_def copy_into_def)

text \<open>
  Claim C7, amended: a memory operation that extends the buffer extends it to the end
  of the range it was asked for, byte for byte and without rounding. After \<open>Set\<close> with
  a positive size the length is the larger of the old length and \<open>offset + size\<close>,
  after \<open>Set32\<close> the larger of the old length and \<open>offset + 32\<close>, after \<open>Resize\<close>
  the larger of the old length and the requested size.
\<close>

theorem Memory_growth_exact:
  "(sz > 0 \<and> Set m offset sz val = Some m1 \<longrightarrow>
      length m1 = max (length m) (unat (offset + sz))) \<and>
   (Set32 m offset w = Some m2 \<longrightarrow>
      length m2 = max (length m) (unat (offset + 32))) \<and>
   length (Resize m sz) = max (length m) (unat sz)"
  using Set_length [of sz m offset val m1] Set32_length [of m offset w m2]
  by (simp add: Resize_length)

theorem Memory_growth_exact_witness:
  "(1 :: u64) > 0 \<and> Set [] 0 1 [255] = Some [255] \<and>
   Set32 [] 0 5 = Some [0,0,0,0,0,0,0,0,0,0,0,0,0,0,0,0,0,0,0,0,0,0,0,0,0,0,0,0,0,0,0,5] \<and>
   length [255 :: byte] = max (length ([] :: byte list)) (unat (0 + 1 :: u64)) \<and>
   length ([0,0,0,0,0,0,0,0,0,0,0,0,0,0,0,0,0,0,0,0,0,0,0,0,0,0,0,0,0,0,0,5] :: byte list)
     = max (length ([] :: byte list)) (unat (0 + 32 :: u64)) \<and>
   length (Resize [] 1) = max (length ([] :: byte list)) (unat (1 :: u64))"
proof -
  have h1: "(1 :: u64) > 0 \<and> Set [] 0 1 [255] = Some [255]"
    by (simp add: Set_def Resize_def copy_into_def)
  have h2: "Set32 [] 0 5 = Some [0,0,0,0,0,0,0,0,0,0,0,0,0,0,0,0,0,0,0,0,0,0,0,0,0,0,0,0,0,0,0,5]"
    by (simp add: Set32_def Resize_def copy_into_def Bytes32_def upt_conv_Cons)
  show ?thesis
    using h1 h2 Memory_growth_exact [of 1 "[]" 0 "[255]" "[255]" 5
      "[0,0,0,0,0,0,0,0,0,0,0,0,0,0,0,0,0,0,0,0,0,0,0,0,0,0,0,0,0,0,0,5]"]
    by simp
qed

text \<open>
  Claim C9: \<open>Set\<close> with size 0 returns the memory it was given, whatever the offset
  and the bytes: no resize, the same length, the same bytes.
\<close>

theorem Set_size_zero_unchanged: "Set m offset 0 val = Some m"
  by (simp add: Set_def)

section \<open>Hook chain\<close>

lemma last_filter_sat: "filter P xs \<noteq> [] \<Longrightarrow> P (last (filter P xs))"
  using last_in_set [of "filter P xs"] by auto

lemma last_non_nil_Cons:
  "last_non_nil (e # es) = (case last_non_nil es of None \<Rightarrow> e | Some x \<Rightarrow> Some x)"
proof (cases "filter (\<lambda>e. e \<noteq> None) es = []")
  case True
  then show ?thesis by (cases e) (simp_all add: last_non_nil_def)
next
  case False
  from last_filter_sat [OF False]
  obtain x where "last (filter (\<lambda>e. e \<noteq> None) es) = Some x"
    by auto
  with False show ?thesis by (simp add: last_non_nil_def)
qed

lemma RunAll_loop_eq:
  "RunAll_loop cb hks call line err =
     (case last_non_nil (map (\<lambda>h. fst (cb h call line)) hks) of
        None \<Rightarrow> err | Some e \<Rightarrow> Some e,
      map (\<lambda>h. snd (cb h call line)) hks)"
proof (induction hks arbitrary: err)
  case Nil
  show ?case by (simp add: last_non_nil_def)
next
  case (Cons h hs)
  show ?case
    by (cases "cb h call line") (auto simp: Cons.IH last_non_nil_Cons split: option.splits)
qed

text \<open>
  Claim C3: each phase calls the callback of every hook of the chain, in the order of
  the chain, whatever the earlier callbacks returned: the hooks after the phase are the
  hooks each callback left, one for one, and the phase returns the last non-nil error of
  the callbacks' results in that order (\<open>nil\<close> when none is non-nil). \<open>Attach\<close> puts
  a hook at the end of the chain.
\<close>

theorem RunAll_last_error:
  "PreRunAll I hks call line =
     (last_non_nil (map (\<lambda>h. fst (PreRun I h call line)) hks),
      map (\<lambda>h. snd (PreRun I h call line)) hks) \<and>
   PostRunAll I hks call line =
     (last_non_nil (map (\<lambda>h. fst (PostRun I h call line)) hks),
      map (\<lambda>h. snd (PostRun I h call line)) hks) \<and>
   Attach hks h = hks @ [h]"
  by (simp add: PreRunAll_def PostRunAll_def Attach_def RunAll_loop_eq split: option.splits)

text \<open>
  Claim C10: \<open>Detach\<close> with an index outside the chain returns the chain; with an
  index inside, the chain without that hook, the others in their order.
\<close>

theorem Detach_removes_ith:
  "(i < 0 \<or> i \<ge> int (length hks) \<longrightarrow> Detach hks i = hks) \<and>
   (0 \<le> i \<and> i < int (length hks) \<longrightarrow>
      Detach hks i = take (nat i) hks @ drop (Suc (nat i)) hks \<and>
      length (Detach hks i) = length hks - 1 \<and>
      (\<forall>j. j < nat i \<longrightarrow> Detach hks i ! j = hks ! j) \<and>
      (\<forall>j. nat i \<le> j \<and> j < length hks - 1 \<longrightarrow> Detach hks i ! j = hks ! (j + 1)))"
  by (auto simp: Detach_def nth_append min_def)

theorem Detach_removes_ith_witness:
  "Detach [EmptyHook, BpPc None 3, BpOpCode None 1] 1 = [EmptyHook, BpOpCode None 1] \<and>
   Detach [EmptyHook, BpPc None 3, BpOpCode None 1] 3 = [EmptyHook, BpPc None 3, BpOpCode None 1] \<and>
   Detach [EmptyHook, BpPc None 3, BpOpCode None 1] (- 1) = [EmptyHook, BpPc None 3, BpOpCode None 1]"
  using Detach_removes_ith [of 1 "[EmptyHook, BpPc None 3, BpOpCode None 1]"]
        Detach_removes_ith [of 3 "[EmptyHook, BpPc None 3, BpOpCode None 1]"]
        Detach_removes_ith [of "- 1" "[EmptyHook, BpPc None 3, BpOpCode None 1]"]
  by simp

section \<open>Disassembler: the metadata cut\<close>

lemma Disasm_None_iff:
  "Disasm a code = None \<longleftrightarrow>
   length code > 2 \<and>
   int (length code) <
     uint (BigEndian_Uint16 (drop (length code - 2) code)) + 2"
proof (cases "length code > 2")
  case False
  then show ?thesis by (simp add: Disasm_def)
next
  case True
  then have n: "nat (int (length code) - 2) = length code - 2" by simp
  have u: "0 \<le> uint (BigEndian_Uint16 (drop (length code - 2) code))" by simp
  show ?thesis using True
    by (simp add: Disasm_def slice_def n Let_def) (use u in arith)
qed

lemma Disasm_ok_or_panic: "Disasm a code = None \<or> (\<exists>asm. Disasm a code = ok asm)"
  by (auto simp: Disasm_def split: bind_splits)

text \<open>
  Claim C5 fails on the code: \<open>Disasm\<close> panics on the six bytes of
  \<open>PUSH1 3; PUSH1 4; ADD; STOP\<close>. Their last two bytes, read as a length, are 256,
  more than the code has.
\<close>

theorem Disasm_panics_on_short_code:
  "Disasm a [0x60, 0x03, 0x60, 0x04, 0x01, 0x00] = None"
  by (simp add: Disasm_def slice_def BigEndian_Uint16_def)

section \<open>Operand stack and current call: basic facts\<close>

lemma Pop_snoc: "Pop (st @ [x]) = Some (x, st)"
  by (simp add: Pop_def)

lemma Peek_snoc: "Peek (st @ [x]) = Some x"
  by (simp add: Peek_def PeekI_def Len_def in_range_def Let_def)

lemma Poke_snoc: "Poke (st @ [x]) v = st @ [v]"
  by (simp add: Poke_def)

lemma Pop_snoc2: "Pop (st @ [x, y]) = Some (y, st @ [x])"
  using Pop_snoc [of "st @ [x]" y] by simp

lemma ctx_CallPtr_less: "ctx_CallPtr ctx = Some p \<Longrightarrow> p < length (Calls ctx)"
  by (auto simp: ctx_CallPtr_def split: bind_splits if_splits)

lemma ctx_CallPtr_upd_Call [simp]: "ctx_CallPtr (upd_Call q f ctx) = ctx_CallPtr ctx"
  by (simp add: ctx_CallPtr_def upd_Call_def)

lemma Calls_upd_Call_same:
  "p < length (Calls ctx) \<Longrightarrow> Calls (upd_Call p f ctx) ! p = f (Calls ctx ! p)"
  by (simp add: upd_Call_def)

lemma Contracts_upd_Call [simp]: "Contracts (upd_Call q f ctx) = Contracts ctx"
  by (simp add: upd_Call_def)

lemma Uint64_unat: "unat (Uint64 t) = unat t mod 2 ^ 64"
  by (simp add: Uint64_def unsigned_ucast_eq take_bit_eq_mod)





lemma sample_CallPtr: "ctx_CallPtr (sample_ctx code st) = Some 0"
  by (simp add: sample_ctx_def NewContext_def ctx_CallPtr_def Peek_def PeekI_def Len_def
                in_range_def)

lemma sample_Stack: "Stack (Calls (sample_ctx code st) ! 0) = st"
  by (simp add: sample_ctx_def NewContext_def)



lemma sample_block_CallPtr: "ctx_CallPtr (sample_block_ctx n) = Some 0"
  by (simp add: sample_block_ctx_def sample_ctx_def NewContext_def ctx_CallPtr_def Peek_def
                PeekI_def Len_def in_range_def)

lemma sample_block_Stack: "Stack (Calls (sample_block_ctx n) ! 0) = [] @ [n]"
  by (simp add: sample_block_ctx_def sample_ctx_def NewContext_def)

section \<open>Shifts by the word width or more\<close>

lemma SRsh_256: "SRsh w (Uint64 256) = (if sint w \<ge> 0 then 0 else - 1)"
proof -
  have "unat (Uint64 256) = 256" by (simp add: Uint64_def)
  moreover have "bit w 255 \<longleftrightarrow> sint w < 0"
    using bit_last_iff [of w] by simp
  ultimately show ?thesis
    by (simp add: SRsh_def signed_drop_bit_beyond)
qed

lemma Sign_nonneg: "Sign w \<ge> 0 \<longleftrightarrow> sint w \<ge> 0"
proof -
  have "bit w 255 \<longleftrightarrow> sint w < 0"
    using bit_last_iff [of w] by simp
  then show ?thesis by (auto simp: Sign_def)
qed

lemma shift_ge_256: "(s :: u256) \<ge> 256 \<Longrightarrow> \<not> LtUint64 s 256 \<and> (GtUint64 s 256 \<or> s = 256)"
  by (auto simp: LtUint64_def GtUint64_def)

text \<open>
  Claim C4: with the shift amount \<open>s\<close> on top of the stack and the word \<open>w\<close>
  below it, \<open>s \<ge> 256\<close> (256 itself and amounts beyond 64 bits included), SHL and
  SHR leave 0 in their place, and SAR leaves 0 when \<open>w\<close> is non-negative as a signed
  word and the all-ones word when it is negative.
\<close>

theorem shifts_beyond_width:
  assumes "ctx_CallPtr ctx = Some p" and "Stack (Calls ctx ! p) = rest @ [w, s]" and "s \<ge> 256"
  shows "apply_exec lib OpSHL ctx = ok (set_Stack p (rest @ [0]) ctx) \<and>
         apply_exec lib OpSHR ctx = ok (set_Stack p (rest @ [0]) ctx) \<and>
         apply_exec lib OpSAR ctx = ok (set_Stack p (rest @ [if sint w \<ge> 0 then 0 else - 1]) ctx) \<and>
         map_option Exec (OpTable SHL) = Some OpSHL \<and>
         map_option Exec (OpTable SHR) = Some OpSHR \<and>
         map_option Exec (OpTable SAR) = Some OpSAR"
proof -
  from shift_ge_256 [OF assms(3)] have lt: "\<not> LtUint64 s 256" and gt: "GtUint64 s 256 \<or> s = 256"
    by simp_all
  have shl: "opSHL ctx = ok (set_Stack p (rest @ [0]) ctx)"
    using assms(1,2) lt by (simp add: opSHL_def on_Stack_def Pop_snoc2 Peek_snoc Poke_snoc)
  have shr: "opSHR ctx = ok (set_Stack p (rest @ [0]) ctx)"
    using assms(1,2) lt by (simp add: opSHR_def on_Stack_def Pop_snoc2 Peek_snoc Poke_snoc)
  have sar: "opSAR ctx = ok (set_Stack p (rest @ [if sint w \<ge> 0 then 0 else - 1]) ctx)"
    using assms(1,2) gt
    by (auto simp: opSAR_def on_Stack_def Pop_snoc2 Peek_snoc Poke_snoc Sign_nonneg SRsh_256
                   GtUint64_def)
  have tbl: "map_option Exec (OpTable SHL) = Some OpSHL \<and>
             map_option Exec (OpTable SHR) = Some OpSHR \<and>
             map_option Exec (OpTable SAR) = Some OpSAR"
    by (simp add: OpTable_def OpTableList_def make_op_def)
  show ?thesis using shl shr sar tbl by (simp add: apply_exec_def)
qed

theorem shifts_beyond_width_witness:
  "apply_exec sample_lib OpSHL (sample_ctx [] [5, 18446744073709551616]) =
     ok (set_Stack 0 [0] (sample_ctx [] [5, 18446744073709551616])) \<and>
   apply_exec sample_lib OpSHR (sample_ctx [] [5, 18446744073709551616]) =
     ok (set_Stack 0 [0] (sample_ctx [] [5, 18446744073709551616])) \<and>
   apply_exec sample_lib OpSAR (sample_ctx [] [5, 18446744073709551616]) =
     ok (set_Stack 0 [0] (sample_ctx [] [5, 18446744073709551616])) \<and>
   apply_exec sample_lib OpSAR (sample_ctx [] [- 1, 256]) =
     ok (set_Stack 0 [- 1] (sample_ctx [] [- 1, 256]))"
  using shifts_beyond_width [where ctx = "sample_ctx [] [5, 18446744073709551616]"
          and rest = "[]" and w = 5 and s = 18446744073709551616 and lib = sample_lib,
          OF sample_CallPtr]
        shifts_beyond_width [where ctx = "sample_ctx [] [- 1, 256]"
          and rest = "[]" and w = "- 1" and s = 256 and lib = sample_lib,
          OF sample_CallPtr]
  by (simp add: sample_Stack)

section \<open>Jumps\<close>



section \<open>BLOCKHASH\<close>

lemma Calls_ensure_block_hash:
  "ensure_block_hash ctx k = (r, ctx1) \<Longrightarrow> Calls ctx1 = Calls ctx"
  by (auto simp: ensure_block_hash_def split: option.splits sum.splits)

lemma drop_bit_64_eq_0: "(drop_bit 64 (n :: u256) = 0) \<longleftrightarrow> unat n < 2 ^ 64"
proof -
  have "(drop_bit 64 n = 0) \<longleftrightarrow> (unat (drop_bit 64 n) = 0)"
    by (simp add: unsigned_eq_0_iff)
  also have "\<dots> \<longleftrightarrow> (unat n div 2 ^ 64 = 0)"
    unfolding unat_drop_bit_eq by (simp add: drop_bit_eq_div)
  also have "\<dots> \<longleftrightarrow> unat n < 2 ^ 64"
    by (simp add: div_eq_0_iff)
  finally show ?thesis .
qed

lemma overflow_iff: "snd (Uint64WithOverflow n) \<longleftrightarrow> unat n \<ge> 2 ^ 64"
  by (simp add: Uint64WithOverflow_def drop_bit_64_eq_0 not_less)

lemma lower_bound_iff:
  fixes upper num64 :: u64
  shows "((if upper < 257 then 0 else upper - 256) \<le> num64) \<longleftrightarrow>
         int (unat upper) - 256 \<le> int (unat num64)"
proof (cases "upper < 257")
  case True
  then have "uint upper < 257" by (simp add: word_less_def)
  with uint_ge_0 [of num64] have "uint upper - 256 \<le> uint num64" by linarith
  with True show ?thesis by simp
next
  case False
  then have u: "257 \<le> unat upper" by (simp add: word_less_nat_alt not_less)
  then have "(256 :: u64) \<le> upper" by (simp add: word_le_nat_alt)
  then have "unat (upper - 256) = unat upper - 256" by (simp add: unat_sub)
  then have a: "(upper - 256 \<le> num64) = (unat upper - 256 \<le> unat num64)"
    by (simp add: word_le_nat_alt)
  have b: "(unat upper - 256 \<le> unat num64) = (int (unat upper) - 256 \<le> int (unat num64))"
    using u by linarith
  show ?thesis using False by (simp only: a b if_False)
qed

text \<open>
  Claim C6, as stated, fails: for the argument \<open>2^64\<close>, which lies outside the
  interval, BLOCKHASH does not put 0 on the stack. It returns the error
  \<open>block hash overflow\<close> and leaves the stack as it was.
\<close>

theorem blockhash_overflow_not_zero:
  "opBlockhash (sample_block_ctx 18446744073709551616) =
     fail (ErrBlockHashOverflow 18446744073709551616) (sample_block_ctx 18446744073709551616) \<and>
   opBlockhash (sample_block_ctx 18446744073709551616) \<noteq>
     ok (set_Stack 0 [0] (sample_block_ctx 18446744073709551616))"
  using sample_block_Stack [of 18446744073709551616]
  by (simp add: opBlockhash_def sample_block_CallPtr Peek_snoc Uint64WithOverflow_def
           drop_bit_eq_div del: append_Nil)

text \<open>
  Claim C6, amended: for an argument \<open>n\<close> that does not fit 64 bits BLOCKHASH returns
  the error \<open>block hash overflow\<close> and changes nothing. For \<open>n < 2^64\<close> outside
  \<open>[blockNumber - 256, blockNumber)\<close> it replaces \<open>n\<close> by 0. For \<open>n\<close> inside
  the interval it asks \<open>ensure_block_hash\<close>: the hash replaces \<open>n\<close>, and an error
  of the resolver is returned with the stack unchanged. \<open>ensure_block_hash\<close> answers
  from \<open>BlockHashes\<close> when the number is cached, and otherwise from the client,
  caching the answer.
\<close>

theorem blockhash_cases:
  assumes "ctx_CallPtr ctx = Some p" and "Stack (Calls ctx ! p) = rest @ [n]"
  shows "(unat n \<ge> 2 ^ 64 \<longrightarrow>
            apply_exec lib OpBlockhash ctx = fail (ErrBlockHashOverflow n) ctx) \<and>
         (unat n < 2 ^ 64 \<and>
          \<not> (int (unat (Number (Block ctx))) - 256 \<le> int (unat n) \<and>
             unat n < unat (Number (Block ctx))) \<longrightarrow>
            apply_exec lib OpBlockhash ctx = ok (set_Stack p (rest @ [0]) ctx)) \<and>
         (unat n < 2 ^ 64 \<and>
          int (unat (Number (Block ctx))) - 256 \<le> int (unat n) \<and>
          unat n < unat (Number (Block ctx)) \<longrightarrow>
            apply_exec lib OpBlockhash ctx =
              (case ensure_block_hash ctx (Uint64 n) of
                 (Inl e, ctx1) \<Rightarrow> fail e ctx1
               | (Inr h, ctx1) \<Rightarrow> ok (set_Stack p (rest @ [h]) ctx1))) \<and>
         (BlockHashes ctx (Uint64 n) = Some h \<longrightarrow>
            ensure_block_hash ctx (Uint64 n) = (Inr h, ctx)) \<and>
         (BlockHashes ctx (Uint64 n) = None \<and> ethClient ctx = Some cl \<and>
          BlockByNumber cl (Uint64 n) = Inr h \<longrightarrow>
            ensure_block_hash ctx (Uint64 n) =
              (Inr h, ctx\<lparr>BlockHashes := (BlockHashes ctx)(Uint64 n \<mapsto> h)\<rparr>)) \<and>
         map_option Exec (OpTable BLOCKHASH) = Some OpBlockhash"
proof -
  have ov: "unat n \<ge> 2 ^ 64 \<Longrightarrow> opBlockhash ctx = fail (ErrBlockHashOverflow n) ctx"
    using assms overflow_iff [of n]
    by (simp add: opBlockhash_def Peek_snoc Uint64WithOverflow_def split_def)
  have nov: "unat n < 2 ^ 64 \<Longrightarrow> \<not> snd (Uint64WithOverflow n)"
    by (simp add: overflow_iff)
  have u: "unat (Uint64 n) = unat n" if "unat n < 2 ^ 64"
    using that by (simp add: Uint64_unat)
  have out: "opBlockhash ctx = ok (set_Stack p (rest @ [0]) ctx)"
    if "unat n < 2 ^ 64"
       "\<not> (int (unat (Number (Block ctx))) - 256 \<le> int (unat n) \<and>
           unat n < unat (Number (Block ctx)))"
    using assms nov [OF that(1)] that(2) u [OF that(1)]
          lower_bound_iff [of "Number (Block ctx)" "Uint64 n"]
    by (auto simp: opBlockhash_def Peek_snoc Poke_snoc Uint64WithOverflow_def Uint64_def
                   Let_def word_less_nat_alt)
  have inn: "opBlockhash ctx =
              (case ensure_block_hash ctx (Uint64 n) of
                 (Inl e, ctx1) \<Rightarrow> fail e ctx1
               | (Inr h, ctx1) \<Rightarrow> ok (set_Stack p (rest @ [h]) ctx1))"
    if "unat n < 2 ^ 64"
       "int (unat (Number (Block ctx))) - 256 \<le> int (unat n)"
       "unat n < unat (Number (Block ctx))"
  proof -
    obtain r ctx1 where e: "ensure_block_hash ctx (Uint64 n) = (r, ctx1)"
      by (cases "ensure_block_hash ctx (Uint64 n)")
    have c: "Calls ctx1 = Calls ctx" using e by (rule Calls_ensure_block_hash)
    show ?thesis
      using assms nov [OF that(1)] that(2,3) u [OF that(1)] e c
            lower_bound_iff [of "Number (Block ctx)" "Uint64 n"]
      by (cases r)
         (auto simp: opBlockhash_def Peek_snoc Poke_snoc Uint64WithOverflow_def Uint64_def
                     Let_def word_less_nat_alt)
  qed
  have hit: "BlockHashes ctx (Uint64 n) = Some h \<Longrightarrow>
             ensure_block_hash ctx (Uint64 n) = (Inr h, ctx)"
    by (simp add: ensure_block_hash_def)
  have miss: "BlockHashes ctx (Uint64 n) = None \<Longrightarrow> ethClient ctx = Some cl \<Longrightarrow>
          BlockByNumber cl (Uint64 n) = Inr h \<Longrightarrow>
            ensure_block_hash ctx (Uint64 n) =
              (Inr h, ctx\<lparr>BlockHashes := (BlockHashes ctx)(Uint64 n \<mapsto> h)\<rparr>)"
    by (simp add: ensure_block_hash_def get_online_block_hash_def)
  have tbl: "map_option Exec (OpTable BLOCKHASH) = Some OpBlockhash"
    by (simp add: OpTable_def OpTableList_def make_op_def)
  show ?thesis using ov out inn hit miss tbl by (simp add: apply_exec_def)
qed

theorem blockhash_cases_witness:
  "apply_exec sample_lib OpBlockhash (sample_block_ctx 18446744073709551616) =
     fail (ErrBlockHashOverflow 18446744073709551616) (sample_block_ctx 18446744073709551616) \<and>
   apply_exec sample_lib OpBlockhash (sample_block_ctx 5) =
     ok (set_Stack 0 [0] (sample_block_ctx 5)) \<and>
   apply_exec sample_lib OpBlockhash (sample_block_ctx 1000) =
     ok (set_Stack 0 [0] (sample_block_ctx 1000)) \<and>
   apply_exec sample_lib OpBlockhash (sample_block_ctx 900) =
     ok (set_Stack 0 [0xabcdef] (sample_block_ctx 900)) \<and>
   apply_exec sample_lib OpBlockhash (sample_block_ctx 901) =
     fail (ErrNoBlockHash 901) (sample_block_ctx 901)"
proof -
  have num: "unat (Number (Block (sample_block_ctx n))) = 1000" for n
    by (simp add: sample_block_ctx_def)
  have hit: "BlockHashes (sample_block_ctx n) (Uint64 900) = Some 0xabcdef" for n
    by (simp add: sample_block_ctx_def Uint64_def)
  have miss: "ensure_block_hash (sample_block_ctx 901) (Uint64 901) =
              (Inl (ErrNoBlockHash 901), sample_block_ctx 901)"
    by (simp add: ensure_block_hash_def get_online_block_hash_def sample_block_ctx_def
                  sample_ctx_def NewContext_def Uint64_def)
  show ?thesis
    using blockhash_cases [OF sample_block_CallPtr sample_block_Stack,
            where n = 18446744073709551616 and lib = sample_lib]
          blockhash_cases [OF sample_block_CallPtr sample_block_Stack,
            where n = 5 and lib = sample_lib]
          blockhash_cases [OF sample_block_CallPtr sample_block_Stack,
            where n = 1000 and lib = sample_lib]
          blockhash_cases [OF sample_block_CallPtr sample_block_Stack,
            where n = 900 and lib = sample_lib and h = "0xabcdef"]
          blockhash_cases [OF sample_block_CallPtr sample_block_Stack,
            where n = 901 and lib = sample_lib]
    by (simp add: num hit miss)
qed

section \<open>Interpreter loop: errors of the hook phases\<close>

lemma Run_body_pre_abort:
  assumes "ctx_CallPtr ctx = Some call" and "ctx_Line ctx = Some (Inr line)"
    and "OpTable (OpCode (Line_Op line)) = Some op"
    and "PreRunAll I (Hooks ctx) (Calls ctx ! call) line = (Some e, hks)"
  shows "Run_body lib I False ctx = fail e (ctx\<lparr>Hooks := hks\<rparr>)"
  using assms by (simp add: Run_body_def)

lemma Run_body_exec_post:
  assumes "ctx_CallPtr ctx = Some call" and "ctx_Line ctx = Some (Inr line)"
    and "OpTable (OpCode (Line_Op line)) = Some op"
    and "PreRunAll I (Hooks ctx) (Calls ctx ! call) line = (pre, hks)"
    and "pre = None \<or> b"
    and "apply_exec lib (Exec op) (ctx\<lparr>Hooks := hks\<rparr>) = Some (None, ctx2)"
    and "ctx3 = (if OpCode (Line_Op line) \<noteq> JUMP \<and> OpCode (Line_Op line) \<noteq> JUMPI
                 then set_Pc call (Pc (Calls ctx2 ! call) + 1) ctx2 else ctx2)"
    and "PostRunAll I (Hooks ctx3) (Calls ctx3 ! call) line = (post, hks')"
  shows "Run_body lib I b ctx = Some (post, ctx3\<lparr>Hooks := hks'\<rparr>)"
  using assms by (cases post) (auto simp: Run_body_def Let_def)

lemma Run_body_exec_error:
  assumes "ctx_CallPtr ctx = Some call" and "ctx_Line ctx = Some (Inr line)"
    and "OpTable (OpCode (Line_Op line)) = Some op"
    and "PreRunAll I (Hooks ctx) (Calls ctx ! call) line = (pre, hks)"
    and "pre = None \<or> b"
    and "apply_exec lib (Exec op) (ctx\<lparr>Hooks := hks\<rparr>) = Some (Some e, ctx2)"
  shows "Run_body lib I b ctx = fail e ctx2"
  using assms by (auto simp: Run_body_def Let_def)

lemma Run_unfold:
  "steps \<noteq> 0 \<Longrightarrow> \<not> IsDone ctx \<Longrightarrow>
   Run lib I steps ctx =
     (case Run_body lib I True ctx of
        None \<Rightarrow> Some None
      | Some (r, c) \<Rightarrow>
          if r \<noteq> None then Some (Some (r, c)) else Run_loop lib I False (steps - 1) c)"
  by (simp add: Run_def Run_loop.simps [of lib I True steps ctx])

lemma Run_loop_unfold:
  "steps \<noteq> 0 \<Longrightarrow> \<not> IsDone ctx \<Longrightarrow>
   Run_loop lib I False steps ctx =
     (case Run_body lib I False ctx of
        None \<Rightarrow> Some None
      | Some (r, c) \<Rightarrow>
          if r \<noteq> None then Some (Some (r, c)) else Run_loop lib I False (steps - 1) c)"
  by (simp add: Run_loop.simps [of lib I False steps ctx])

text \<open>
  Claim C2: in one call of \<open>Run\<close>, where the body of the loop has a call, a line
  and an operation to work on: an error of the PreRun phase on an iteration that is not
  the first ends the body there and is what \<open>Run\<close> returns, nothing having been
  executed; on the first iteration the error is dropped, the instruction is executed and
  the PostRun phase runs; an error of the PostRun phase is returned on every iteration,
  the first included. Only the first iteration of a call of \<open>Run\<close> runs the body as
  the first step: the loop goes on with \<open>is_first_step\<close> false.
\<close>

theorem Run_hook_errors:
  assumes "ctx_CallPtr ctx = Some call" and "ctx_Line ctx = Some (Inr line)"
    and "OpTable (OpCode (Line_Op line)) = Some op"
    and "PreRunAll I (Hooks ctx) (Calls ctx ! call) line = (pre, hks)"
  shows "(pre = Some e \<longrightarrow> Run_body lib I False ctx = fail e (ctx\<lparr>Hooks := hks\<rparr>)) \<and>
         ((pre = None \<or> b) \<and>
          apply_exec lib (Exec op) (ctx\<lparr>Hooks := hks\<rparr>) = Some (None, ctxE) \<and>
          ctxP = (if OpCode (Line_Op line) \<noteq> JUMP \<and> OpCode (Line_Op line) \<noteq> JUMPI
                  then set_Pc call (Pc (Calls ctxE ! call) + 1) ctxE else ctxE) \<and>
          PostRunAll I (Hooks ctxP) (Calls ctxP ! call) line = (post, hksP) \<longrightarrow>
            Run_body lib I b ctx = Some (post, ctxP\<lparr>Hooks := hksP\<rparr>)) \<and>
         (steps \<noteq> 0 \<and> \<not> IsDone ctx \<longrightarrow>
            Run lib I steps ctx =
              (case Run_body lib I True ctx of
                 None \<Rightarrow> Some None
               | Some (r, c) \<Rightarrow>
                   if r \<noteq> None then Some (Some (r, c))
                   else Run_loop lib I False (steps - 1) c)) \<and>
         (steps \<noteq> 0 \<and> \<not> IsDone ctx \<longrightarrow>
            Run_loop lib I False steps ctx =
              (case Run_body lib I False ctx of
                 None \<Rightarrow> Some None
               | Some (r, c) \<Rightarrow>
                   if r \<noteq> None then Some (Some (r, c))
                   else Run_loop lib I False (steps - 1) c))"
proof (intro conjI impI)
  assume "pre = Some e"
  then show "Run_body lib I False ctx = fail e (ctx\<lparr>Hooks := hks\<rparr>)"
    using Run_body_pre_abort [OF assms(1-3)] assms(4) by simp
next
  assume h: "(pre = None \<or> b) \<and>
          apply_exec lib (Exec op) (ctx\<lparr>Hooks := hks\<rparr>) = Some (None, ctxE) \<and>
          ctxP = (if OpCode (Line_Op line) \<noteq> JUMP \<and> OpCode (Line_Op line) \<noteq> JUMPI
                  then set_Pc call (Pc (Calls ctxE ! call) + 1) ctxE else ctxE) \<and>
          PostRunAll I (Hooks ctxP) (Calls ctxP ! call) line = (post, hksP)"
  show "Run_body lib I b ctx = Some (post, ctxP\<lparr>Hooks := hksP\<rparr>)"
    by (rule Run_body_exec_post [OF assms(1-4)]) (use h in blast)+
next
  assume "steps \<noteq> 0 \<and> \<not> IsDone ctx"
  then show "Run lib I steps ctx =
              (case Run_body lib I True ctx of
                 None \<Rightarrow> Some None
               | Some (r, c) \<Rightarrow>
                   if r \<noteq> None then Some (Some (r, c))
                   else Run_loop lib I False (steps - 1) c)"
    using Run_unfold [of steps ctx lib I] by blast
next
  assume "steps \<noteq> 0 \<and> \<not> IsDone ctx"
  then show "Run_loop lib I False steps ctx =
              (case Run_body lib I False ctx of
                 None \<Rightarrow> Some None
               | Some (r, c) \<Rightarrow>
                   if r \<noteq> None then Some (Some (r, c))
                   else Run_loop lib I False (steps - 1) c)"
    using Run_loop_unfold [of steps ctx lib I] by blast
qed

lemma sample_bp_CallPtr: "ctx_CallPtr sample_bp_ctx = Some 0"
  by (simp add: sample_bp_ctx_def sample_ctx_def NewContext_def ctx_CallPtr_def Peek_def
                PeekI_def Len_def in_range_def)

lemma OpTable_JUMPDEST: "OpTable 0x5b = Some (make_op 0x5b 0 0 0 OpJumpdest)"
  by (simp add: OpTable_def OpTableList_def)

lemma OpTable_STOP: "OpTable 0x00 = Some (make_op 0x00 0 0 0 OpStop)"
  by (simp add: OpTable_def OpTableList_def)

lemma sample_asm:
  "Asm (Code (sample_contract [0x5b, 0x00])) = Some (Disasm_loop [0x5b, 0x00] 0 Reset)"
  by (simp add: sample_contract_def Code_Set_def Code_Disasm_def Disasm_def NewContract_def)

lemma sample_mapPc: "mapPc (Disasm_loop [0x5b, 0x00] 0 Reset) 0 = Some sample_line"
  by (simp add: Reset_def OpTable_JUMPDEST OpTable_STOP sample_line_def make_op_def Let_def)

lemma sample_bp_Call: "ctx_Call sample_bp_ctx = Some zero_Call"
  by (simp add: ctx_Call_def sample_bp_CallPtr)
     (simp add: sample_bp_ctx_def sample_ctx_def zero_Call_def)

lemma sample_bp_Code: "ctx_Code sample_bp_ctx = Some (Code (sample_contract [0x5b, 0x00]))"
  by (simp add: ctx_Code_def sample_bp_Call)
     (simp add: sample_bp_ctx_def sample_ctx_def CodeAddress_def zero_Call_def)

lemma sample_bp_Line: "ctx_Line sample_bp_ctx = Some (Inr sample_line)"
  by (simp add: ctx_Line_def sample_bp_Code sample_bp_Call sample_asm LineAtPc_def)
     (simp add: zero_Call_def sample_mapPc [simplified])

lemma sample_bp_PreRunAll:
  "PreRunAll hook_iface (Hooks sample_bp_ctx) (Calls sample_bp_ctx ! 0) sample_line =
     (Some (ErrorWrap ErrBreakpoint (MsgBpPc None 0)), [BpPc None 0])"
  by (simp add: PreRunAll_def hook_iface_def sample_bp_ctx_def sample_line_def)

lemma sample_bp_PreRunAll2:
  "PreRunAll sample_post_iface (Hooks sample_bp_ctx) (Calls sample_bp_ctx ! 0) sample_line =
     (Some (ErrorWrap ErrBreakpoint (MsgBpPc None 0)), [BpPc None 0])"
  by (simp add: PreRunAll_def sample_post_iface_def sample_bp_ctx_def sample_line_def)

lemma sample_bp_Hooks: "sample_bp_ctx\<lparr>Hooks := [BpPc None 0]\<rparr> = sample_bp_ctx"
  by (simp add: sample_bp_ctx_def)


theorem Run_hook_errors_witness:
  "Run_body sample_lib hook_iface False sample_bp_ctx =
     fail (ErrorWrap ErrBreakpoint (MsgBpPc None 0)) sample_bp_ctx \<and>
   Run_body sample_lib hook_iface True sample_bp_ctx = ok (set_Pc 0 1 sample_bp_ctx) \<and>
   Run_body sample_lib sample_post_iface True sample_bp_ctx =
     fail (ErrorNew ''post'') (set_Pc 0 1 sample_bp_ctx) \<and>
   Run sample_lib hook_iface 1 sample_bp_ctx = Some (ok (set_Pc 0 1 sample_bp_ctx))"
proof -
  have op: "OpTable (OpCode (Line_Op sample_line)) = Some (make_op 0x5b 0 0 0 OpJumpdest)"
    by (simp add: sample_line_def make_op_def OpTable_JUMPDEST [simplified make_op_def])
  have ex: "apply_exec sample_lib (Exec (make_op 0x5b 0 0 0 OpJumpdest))
              (sample_bp_ctx\<lparr>Hooks := [BpPc None 0]\<rparr>) = ok sample_bp_ctx"
    by (simp add: sample_bp_Hooks make_op_def apply_exec_def opJumpdest_def)
  have c3: "set_Pc 0 1 sample_bp_ctx =
            (if OpCode (Line_Op sample_line) \<noteq> JUMP \<and> OpCode (Line_Op sample_line) \<noteq> JUMPI
             then set_Pc 0 (Pc (Calls sample_bp_ctx ! 0) + 1) sample_bp_ctx else sample_bp_ctx)"
    by (simp add: sample_line_def make_op_def)
       (simp add: sample_bp_ctx_def sample_ctx_def zero_Call_def)
  have hk: "Hooks (set_Pc 0 1 sample_bp_ctx) = [BpPc None 0]"
    by (simp add: set_Pc_def upd_Call_def sample_bp_ctx_def)
  have po: "PostRunAll hook_iface (Hooks (set_Pc 0 1 sample_bp_ctx))
              (Calls (set_Pc 0 1 sample_bp_ctx) ! 0) sample_line = (None, [BpPc None 0])"
    by (simp add: hk PostRunAll_def hook_iface_def)
  have po2: "PostRunAll sample_post_iface (Hooks (set_Pc 0 1 sample_bp_ctx))
              (Calls (set_Pc 0 1 sample_bp_ctx) ! 0) sample_line =
              (Some (ErrorNew ''post''), [BpPc None 0])"
    by (simp add: hk PostRunAll_def sample_post_iface_def)
  have h3: "(set_Pc 0 1 sample_bp_ctx)\<lparr>Hooks := [BpPc None 0]\<rparr> = set_Pc 0 1 sample_bp_ctx"
    by (simp add: set_Pc_def upd_Call_def sample_bp_ctx_def)
  have nd: "(1 :: 64 word) \<noteq> 0 \<and> \<not> IsDone sample_bp_ctx"
    by (simp add: sample_bp_ctx_def sample_ctx_def NewContext_def)
  have r0: "Run_loop sample_lib hook_iface False 0 (set_Pc 0 1 sample_bp_ctx) =
            Some (ok (set_Pc 0 1 sample_bp_ctx))"
    by (simp add: Run_loop.simps [of _ _ _ 0])
  note t1 = Run_hook_errors [OF sample_bp_CallPtr sample_bp_Line op sample_bp_PreRunAll,
      where lib = sample_lib and b = True and ctxE = sample_bp_ctx
        and ctxP = "set_Pc 0 1 sample_bp_ctx" and post = None and hksP = "[BpPc None 0]"
        and e = "ErrorWrap ErrBreakpoint (MsgBpPc None 0)" and steps = 1]
  note t2 = Run_hook_errors [OF sample_bp_CallPtr sample_bp_Line op sample_bp_PreRunAll2,
      where lib = sample_lib and b = True and ctxE = sample_bp_ctx
        and ctxP = "set_Pc 0 1 sample_bp_ctx" and post = "Some (ErrorNew ''post'')"
        and hksP = "[BpPc None 0]"
        and e = "ErrorWrap ErrBreakpoint (MsgBpPc None 0)" and steps = 1]
  have a: "Run_body sample_lib hook_iface False sample_bp_ctx =
             fail (ErrorWrap ErrBreakpoint (MsgBpPc None 0)) sample_bp_ctx"
    using t1 by (simp add: sample_bp_Hooks)
  have b: "Run_body sample_lib hook_iface True sample_bp_ctx =
             Some (None, (set_Pc 0 1 sample_bp_ctx)\<lparr>Hooks := [BpPc None 0]\<rparr>)"
    using t1 ex c3 po by blast
  have c: "Run_body sample_lib sample_post_iface True sample_bp_ctx =
             Some (Some (ErrorNew ''post''), (set_Pc 0 1 sample_bp_ctx)\<lparr>Hooks := [BpPc None 0]\<rparr>)"
    using t2 ex c3 po2 by blast
  have d: "Run sample_lib hook_iface 1 sample_bp_ctx =
              (case Run_body sample_lib hook_iface True sample_bp_ctx of
                 None \<Rightarrow> Some None
               | Some (r, c) \<Rightarrow>
                   if r \<noteq> None then Some (Some (r, c))
                   else Run_loop sample_lib hook_iface False (1 - 1) c)"
    using t1 nd by blast
  show ?thesis
    using a b c d by (simp add: h3 r0)
qed

section \<open>Stack arity of the operation table\<close>

lemma Pop_eq_Some: "Pop st = Some (x, st1) \<longleftrightarrow> st = st1 @ [x]"
  by (cases st rule: rev_cases) (auto simp: Pop_def)

lemma Peek_eq_Some: "Peek st = Some y \<longleftrightarrow> st \<noteq> [] \<and> y = last st"
  by (cases st rule: rev_cases) (auto simp: Peek_def PeekI_def Len_def in_range_def Let_def)

lemma length_Poke [simp]: "length (Poke st v) = length st"
  by (simp add: Poke_def)

lemma length_Push [simp]: "length (Push st v) = Suc (length st)"
  by (simp add: Push_def)




lemma Stack_set_Stack:
  "p < length (Calls ctx) \<Longrightarrow> Stack (Calls (set_Stack p st ctx) ! p) = st"
  by (simp add: set_Stack_def upd_Call_def)

lemma Stack_set_Memory [simp]:
  "Stack (Calls (set_Memory p m ctx) ! q) = Stack (Calls ctx ! q)"
  by (cases "p < length (Calls ctx)"; cases "p = q") (simp_all add: set_Memory_def upd_Call_def not_less list_update_beyond)

lemma Stack_set_Pc [simp]:
  "Stack (Calls (set_Pc p pc ctx) ! q) = Stack (Calls ctx ! q)"
  by (cases "p < length (Calls ctx)"; cases "p = q") (simp_all add: set_Pc_def upd_Call_def not_less list_update_beyond)

lemma length_Calls_set [simp]:
  "length (Calls (set_Stack p st ctx)) = length (Calls ctx)"
  "length (Calls (set_Memory p m ctx)) = length (Calls ctx)"
  "length (Calls (set_Pc p pc ctx)) = length (Calls ctx)"
  by (simp_all add: set_Stack_def set_Memory_def set_Pc_def upd_Call_def)

lemma on_Stack_ok:
  "on_Stack ctx f = Some (None, ctx1) \<Longrightarrow> ctx_CallPtr ctx = Some p \<Longrightarrow>
   f (Stack (Calls ctx ! p)) = Some (Stack (Calls ctx1 ! p))"
  by (auto simp: on_Stack_def Stack_set_Stack dest: ctx_CallPtr_less split: bind_splits)

lemma respects_on_Stack:
  assumes "\<And>ctx st st1. f ctx st = Some st1 \<Longrightarrow> length st1 + nIn = length st + nOut"
  shows "respects_arity (\<lambda>ctx. on_Stack ctx (f ctx)) nIn nOut"
  unfolding respects_arity_def
proof (intro allI impI)
  fix ctx ctx1 :: "'a Context" and p
  assume h: "ctx_CallPtr ctx = Some p \<and> distinct (CallStack ctx) \<and>
             on_Stack ctx (f ctx) = Some (None, ctx1)"
  then have "f ctx (Stack (Calls ctx ! p)) = Some (Stack (Calls ctx1 ! p))"
    by (simp add: on_Stack_ok)
  then show "length (Stack (Calls ctx1 ! p)) + nIn = length (Stack (Calls ctx ! p)) + nOut"
    by (rule assms)
qed


































lemma arity_opAddmod: "respects_arity opAddmod 3 1"
  unfolding opAddmod_def
  by (rule respects_on_Stack) (auto simp: Pop_eq_Some Peek_eq_Some split: bind_splits)

lemma arity_opMulmod: "respects_arity opMulmod 3 1"
  unfolding opMulmod_def
  by (rule respects_on_Stack) (auto simp: Pop_eq_Some Peek_eq_Some split: bind_splits)













lemma ensure_contract_at_frame:
  "ensure_contract_at ctx a = (c, ctx1) \<Longrightarrow>
   Calls ctx1 = Calls ctx \<and> CallStack ctx1 = CallStack ctx"
  by (auto simp: ensure_contract_at_def split: option.splits)

lemma ensure_code_frame:
  "ensure_code ctx a = Some (r, ctx1) \<Longrightarrow>
   Calls ctx1 = Calls ctx \<and> CallStack ctx1 = CallStack ctx"
  by (auto simp: ensure_code_def Let_def
           dest!: ensure_contract_at_frame
           split: prod.splits if_splits sum.splits bind_splits option.splits)





lemma ctx_Call_Some: "ctx_Call ctx = Some c \<Longrightarrow> \<exists>p. ctx_CallPtr ctx = Some p \<and> c = Calls ctx ! p"
  by (auto simp: ctx_Call_def split: bind_splits)

lemma CallStack_set [simp]:
  "CallStack (set_Stack p st ctx) = CallStack ctx"
  "CallStack (set_Memory p m ctx) = CallStack ctx"
  "CallStack (set_Pc p pc ctx) = CallStack ctx"
  by (simp_all add: set_Stack_def set_Memory_def set_Pc_def upd_Call_def)

lemma ctx_CallPtr_set [simp]:
  "ctx_CallPtr (set_Stack p st ctx) = ctx_CallPtr ctx"
  "ctx_CallPtr (set_Memory p m ctx) = ctx_CallPtr ctx"
  "ctx_CallPtr (set_Pc p pc ctx) = ctx_CallPtr ctx"
  by (simp_all add: set_Stack_def set_Memory_def set_Pc_def)











lemma arity_opCallDataLoad: "respects_arity opCallDataLoad 1 1"
  unfolding respects_arity_def opCallDataLoad_def
  by (auto simp: Let_def Peek_eq_Some Stack_set_Stack dest: ctx_CallPtr_less
           split: bind_splits prod.splits if_splits)










lemma arity_opExtCodeSize: "respects_arity opExtCodeSize 1 1"
  unfolding respects_arity_def opExtCodeSize_def
  by (auto simp: Let_def Peek_eq_Some Stack_set_Stack
           dest!: ensure_code_frame dest: ctx_CallPtr_less
           split: bind_splits sum.splits)













lemma Stack_upd_InnerReturnVal [simp]:
  "Stack (Calls (upd_Call q (\<lambda>c. c\<lparr>InnerReturnVal := v\<rparr>) ctx) ! p) = Stack (Calls ctx ! p)"
  by (cases "q < length (Calls ctx)"; cases "p = q")
     (simp_all add: upd_Call_def not_less list_update_beyond)

lemma Calls_CallStack_update [simp]: "Calls (ctx\<lparr>CallStack := cs\<rparr>) = Calls ctx"
  by simp

















text \<open>
  Four entries of the table record arities that their exec functions do not have:
  ADDMOD and MULMOD are recorded with 2 in and 1 out and pop three operands,
  CALLDATALOAD and EXTCODESIZE are recorded with 0 in and 1 out and replace the operand
  on top of the stack.
\<close>

lemma table_entries_off:
  "map_option (\<lambda>op. (NStackIn op, NStackOut op)) (OpTable ADDMOD) = Some (2, 1) \<and>
   respects_arity (opAddmod :: 'h Context \<Rightarrow> _) 3 1 \<and>
   map_option (\<lambda>op. (NStackIn op, NStackOut op)) (OpTable MULMOD) = Some (2, 1) \<and>
   respects_arity (opMulmod :: 'h Context \<Rightarrow> _) 3 1 \<and>
   map_option (\<lambda>op. (NStackIn op, NStackOut op)) (OpTable CALLDATALOAD) = Some (0, 1) \<and>
   respects_arity (opCallDataLoad :: 'h Context \<Rightarrow> _) 1 1 \<and>
   map_option (\<lambda>op. (NStackIn op, NStackOut op)) (OpTable EXTCODESIZE) = Some (0, 1) \<and>
   respects_arity (opExtCodeSize :: 'h Context \<Rightarrow> _) 1 1"
  by (simp add: OpTable_def OpTableList_def make_op_def
        arity_opAddmod [unfolded One_nat_def] arity_opMulmod [unfolded One_nat_def]
        arity_opCallDataLoad [unfolded One_nat_def] arity_opExtCodeSize [unfolded One_nat_def])













end
